theory Spec2Isabelle
  imports Main "HOL-Library.Word"
begin

section \<open>Values, bytes and hex text\<close>

text \<open>
  The crypto utility (\<^verbatim>\<open>backend/utils/pqcrypto.js\<close>) and the Mongoose
  encryption plugin (\<^verbatim>\<open>backend/models/plugins/encryptionPlugin.js\<close>) are
  glue around library calls. The glue is embedded here function by function; the
  libraries it calls (ML-KEM, ML-DSA, CryptoJS AES, \<^verbatim>\<open>JSON\<close>) are not
  part of the repository and enter through the record \<open>platform\<close> below.
\<close>

type_synonym bytes = "8 word list"

text \<open>Whatever a JavaScript \<^verbatim>\<open>throw\<close> carries: an error with its message.\<close>

datatype exn = Error string

text \<open>
  JavaScript values as far as the utility distinguishes them. Strings are their UTF-8
  text; numbers are restricted to the integers.
\<close>

datatype jsval =
    JUndefined
  | JNull
  | JBool bool
  | JNum int
  | JStr string
  | JArr "jsval list"
  | JObj "(string \<times> jsval) list"

text \<open>\<^verbatim>\<open>typeof v === 'object'\<close>: true of null, arrays and objects.\<close>

fun typeof_object :: "jsval \<Rightarrow> bool" where
  "typeof_object JNull = True"
| "typeof_object (JArr xs) = True"
| "typeof_object (JObj kvs) = True"
| "typeof_object v = False"

text \<open>
  \<^verbatim>\<open>Buffer.from(bytes).toString('hex')\<close>: two lowercase hex digits per byte.
\<close>

definition hex_digit :: "nat \<Rightarrow> char" where
  "hex_digit n = ''0123456789abcdef'' ! (n mod 16)"

fun hex_encode :: "bytes \<Rightarrow> string" where
  "hex_encode [] = []"
| "hex_encode (b # bs) =
     hex_digit (unat b div 16) # hex_digit (unat b mod 16) # hex_encode bs"

text \<open>
  \<^verbatim>\<open>Buffer.from(text, 'hex')\<close>: pairs of hex digits of either case are decoded
  until the first pair that is not hex; the rest (and an odd last character) is dropped.
  Nothing is thrown on malformed text.
\<close>

definition hex_value :: "char \<Rightarrow> nat option" where
  "hex_value c =
     (let n = of_char c :: nat in
      if 48 \<le> n \<and> n \<le> 57 then Some (n - 48)
      else if 97 \<le> n \<and> n \<le> 102 then Some (n - 87)
      else if 65 \<le> n \<and> n \<le> 70 then Some (n - 55)
      else None)"

fun hex_decode :: "string \<Rightarrow> bytes" where
  "hex_decode (a # b # rest) =
     (case hex_value a of
        None \<Rightarrow> []
      | Some h \<Rightarrow>
          (case hex_value b of
             None \<Rightarrow> []
           | Some l \<Rightarrow> of_nat (16 * h + l) # hex_decode rest))"
| "hex_decode rest = []"

text \<open>\<^verbatim>\<open>Buffer.from(text, 'utf8')\<close> on a string: its bytes.\<close>

definition utf8_bytes :: "string \<Rightarrow> bytes" where
  "utf8_bytes s = map (\<lambda>c. of_nat (of_char c)) s"

section \<open>The libraries the utility calls\<close>

text \<open>
  Every library function the source calls is a field of \<open>platform\<close>; a call that
  may throw returns \<open>exn + result\<close>. Randomness is made explicit: a call that draws
  random bytes takes the position of the entropy source as its first argument.

  \<^item> \<open>kem_import\<close>, \<open>dsa_import\<close>: the dynamic imports behind \<^verbatim>\<open>getMlKEM\<close> and
    \<^verbatim>\<open>getMlDSA\<close>;
  \<^item> \<open>kem_keygen\<close>, \<open>kem_encapsulate\<close>, \<open>kem_decapsulate\<close>: \<^verbatim>\<open>ml_kem768\<close>;
    key generation returns (publicKey, secretKey), encapsulation (cipherText, sharedSecret);
  \<^item> \<open>dsa_keygen\<close>, \<open>dsa_sign\<close>, \<open>dsa_verify\<close>: \<^verbatim>\<open>ml_dsa65\<close>, with the
    parameters in the order the library declares them: \<^verbatim>\<open>sign(message, secretKey)\<close>
    and \<^verbatim>\<open>verify(signature, message, publicKey)\<close>;
  \<^item> \<open>random_iv\<close>: \<^verbatim>\<open>CryptoJS.lib.WordArray.random(16)\<close>, as its hex text;
  \<^item> \<open>aes_encrypt msg key iv\<close>: \<^verbatim>\<open>CryptoJS.AES.encrypt(msg, Hex.parse(key), {iv, CBC, Pkcs7}).toString()\<close>;
  \<^item> \<open>aes_decrypt ct key iv\<close>: \<^verbatim>\<open>CryptoJS.AES.decrypt(ct, Hex.parse(key), {Hex.parse(iv), CBC, Pkcs7}).toString(Utf8)\<close>;
  \<^item> \<open>json_stringify\<close>, \<open>json_parse\<close>: \<^verbatim>\<open>JSON.stringify\<close> and \<^verbatim>\<open>JSON.parse\<close>
    (\<open>None\<close> when it throws a SyntaxError);
  \<^item> \<open>buffer_from_object\<close>: \<^verbatim>\<open>Buffer.from\<close> on an array or object argument.
\<close>

record platform =
  kem_import :: "exn + unit"
  kem_keygen :: "nat \<Rightarrow> exn + (bytes \<times> bytes)"
  kem_encapsulate :: "nat \<Rightarrow> bytes \<Rightarrow> exn + (bytes \<times> bytes)"
  kem_decapsulate :: "bytes \<Rightarrow> bytes \<Rightarrow> exn + bytes"
  dsa_import :: "exn + unit"
  dsa_keygen :: "nat \<Rightarrow> exn + (bytes \<times> bytes)"
  dsa_sign :: "nat \<Rightarrow> bytes \<Rightarrow> bytes \<Rightarrow> exn + bytes"
  dsa_verify :: "bytes \<Rightarrow> bytes \<Rightarrow> bytes \<Rightarrow> exn + bool"
  random_iv :: "nat \<Rightarrow> string"
  aes_encrypt :: "jsval \<Rightarrow> string \<Rightarrow> string \<Rightarrow> exn + string"
  aes_decrypt :: "string \<Rightarrow> string \<Rightarrow> string \<Rightarrow> exn + string"
  json_stringify :: "jsval \<Rightarrow> string"
  json_parse :: "string \<Rightarrow> jsval option"
  buffer_from_object :: "jsval \<Rightarrow> exn + bytes"

datatype encoding = Hex | Utf8

text \<open>\<^verbatim>\<open>Buffer.from(x, encoding)\<close>: a TypeError unless x is a string, array or object.\<close>

fun buffer_from :: "platform \<Rightarrow> jsval \<Rightarrow> encoding \<Rightarrow> exn + bytes" where
  "buffer_from P (JStr s) Hex = Inr (hex_decode s)"
| "buffer_from P (JStr s) Utf8 = Inr (utf8_bytes s)"
| "buffer_from P (JArr xs) enc = buffer_from_object P (JArr xs)"
| "buffer_from P (JObj kvs) enc = buffer_from_object P (JObj kvs)"
| "buffer_from P v enc = Inl (Error ''TypeError'')"

section \<open>The key directory\<close>

text \<open>
  The process's surroundings: the files of the key directory (each with its read and
  write permission and its text), whether new files can be created there, and the
  position of the entropy source.
\<close>

record keyfile =
  readable :: bool
  writable :: bool
  content :: string

record world =
  files :: "string \<rightharpoonup> keyfile"
  dir_writable :: bool
  entropy :: nat

definition existsSync :: "world \<Rightarrow> string \<Rightarrow> bool" where
  "existsSync w p = (files w p \<noteq> None)"

definition readFileSync :: "world \<Rightarrow> string \<Rightarrow> exn + string" where
  "readFileSync w p =
     (case files w p of
        None \<Rightarrow> Inl (Error ''ENOENT'')
      | Some f \<Rightarrow> if readable f then Inr (content f) else Inl (Error ''EACCES''))"

definition writeFileSync :: "world \<Rightarrow> string \<Rightarrow> string \<Rightarrow> (exn + unit) \<times> world" where
  "writeFileSync w p txt =
     (case files w p of
        None \<Rightarrow>
          if dir_writable w
          then (Inr (), w\<lparr>files := (files w)(p \<mapsto> \<lparr>readable = True, writable = True, content = txt\<rparr>)\<rparr>)
          else (Inl (Error ''EACCES''), w)
      | Some f \<Rightarrow>
          if writable f
          then (Inr (), w\<lparr>files := (files w)(p \<mapsto> f\<lparr>content := txt\<rparr>)\<rparr>)
          else (Inl (Error ''EACCES''), w))"

text \<open>One draw from the entropy source.\<close>

definition draw :: "world \<Rightarrow> nat \<times> world" where
  "draw w = (entropy w, w\<lparr>entropy := Suc (entropy w)\<rparr>)"

definition KYBER_PRIVATE_KEY_PATH :: string where
  "KYBER_PRIVATE_KEY_PATH = ''kyber_private.key''"

definition KYBER_PUBLIC_KEY_PATH :: string where
  "KYBER_PUBLIC_KEY_PATH = ''kyber_public.key''"

definition DILITHIUM_PRIVATE_KEY_PATH :: string where
  "DILITHIUM_PRIVATE_KEY_PATH = ''dilithium_private.key''"

definition DILITHIUM_PUBLIC_KEY_PATH :: string where
  "DILITHIUM_PUBLIC_KEY_PATH = ''dilithium_public.key''"

section \<open>Key generation and loading\<close>

record keypair =
  publicKey :: bytes
  privateKey :: bytes

text \<open>
  \<^verbatim>\<open>generateKyberKeys\<close>: import, \<^verbatim>\<open>keygen()\<close>, write the private key file, write
  the public key file, return the pair. The \<open>try\<close> body comes first; the \<open>catch\<close>
  replaces whatever was thrown by \<^verbatim>\<open>Failed to generate Kyber keys\<close>.
\<close>

definition generateKyberKeys_try :: "platform \<Rightarrow> world \<Rightarrow> (exn + keypair) \<times> world" where
  "generateKyberKeys_try P w =
     (case kem_import P of
        Inl e \<Rightarrow> (Inl e, w)
      | Inr u \<Rightarrow>
          (case draw w of
             (r, w1) \<Rightarrow>
               (case kem_keygen P r of
                  Inl e \<Rightarrow> (Inl e, w1)
                | Inr (pk, sk) \<Rightarrow>
                    (case writeFileSync w1 KYBER_PRIVATE_KEY_PATH (hex_encode sk) of
                       (Inl e, w2) \<Rightarrow> (Inl e, w2)
                     | (Inr u2, w2) \<Rightarrow>
                         (case writeFileSync w2 KYBER_PUBLIC_KEY_PATH (hex_encode pk) of
                            (Inl e, w3) \<Rightarrow> (Inl e, w3)
                          | (Inr u3, w3) \<Rightarrow>
                              (Inr \<lparr>publicKey = pk, privateKey = sk\<rparr>, w3))))))"

definition generateKyberKeys :: "platform \<Rightarrow> world \<Rightarrow> (exn + keypair) \<times> world" where
  "generateKyberKeys P w =
     (case generateKyberKeys_try P w of
        (Inl e, w') \<Rightarrow> (Inl (Error ''Failed to generate Kyber keys''), w')
      | (Inr k, w') \<Rightarrow> (Inr k, w'))"

definition generateDilithiumKeys_try :: "platform \<Rightarrow> world \<Rightarrow> (exn + keypair) \<times> world" where
  "generateDilithiumKeys_try P w =
     (case dsa_import P of
        Inl e \<Rightarrow> (Inl e, w)
      | Inr u \<Rightarrow>
          (case draw w of
             (r, w1) \<Rightarrow>
               (case dsa_keygen P r of
                  Inl e \<Rightarrow> (Inl e, w1)
                | Inr (pk, sk) \<Rightarrow>
                    (case writeFileSync w1 DILITHIUM_PRIVATE_KEY_PATH (hex_encode sk) of
                       (Inl e, w2) \<Rightarrow> (Inl e, w2)
                     | (Inr u2, w2) \<Rightarrow>
                         (case writeFileSync w2 DILITHIUM_PUBLIC_KEY_PATH (hex_encode pk) of
                            (Inl e, w3) \<Rightarrow> (Inl e, w3)
                          | (Inr u3, w3) \<Rightarrow>
                              (Inr \<lparr>publicKey = pk, privateKey = sk\<rparr>, w3))))))"

definition generateDilithiumKeys :: "platform \<Rightarrow> world \<Rightarrow> (exn + keypair) \<times> world" where
  "generateDilithiumKeys P w =
     (case generateDilithiumKeys_try P w of
        (Inl e, w') \<Rightarrow> (Inl (Error ''Failed to generate Dilithium keys''), w')
      | (Inr k, w') \<Rightarrow> (Inr k, w'))"

text \<open>
  \<^verbatim>\<open>loadOrGenerateKyberKeys\<close>. The \<open>try\<close> body: when both files exist, read and
  hex-decode the private key file, then the public key file; otherwise generate. The
  \<open>catch\<close> runs the generation (again), whatever was thrown.
\<close>

definition loadOrGenerateKyberKeys_try :: "platform \<Rightarrow> world \<Rightarrow> (exn + keypair) \<times> world" where
  "loadOrGenerateKyberKeys_try P w =
     (if existsSync w KYBER_PRIVATE_KEY_PATH \<and> existsSync w KYBER_PUBLIC_KEY_PATH
      then
        (case readFileSync w KYBER_PRIVATE_KEY_PATH of
           Inl e \<Rightarrow> (Inl e, w)
         | Inr skt \<Rightarrow>
             (case readFileSync w KYBER_PUBLIC_KEY_PATH of
                Inl e \<Rightarrow> (Inl e, w)
              | Inr pkt \<Rightarrow>
                  (Inr \<lparr>publicKey = hex_decode pkt, privateKey = hex_decode skt\<rparr>, w)))
      else generateKyberKeys P w)"

definition loadOrGenerateKyberKeys :: "platform \<Rightarrow> world \<Rightarrow> (exn + keypair) \<times> world" where
  "loadOrGenerateKyberKeys P w =
     (case loadOrGenerateKyberKeys_try P w of
        (Inl e, w') \<Rightarrow> generateKyberKeys P w'
      | (Inr k, w') \<Rightarrow> (Inr k, w'))"

definition loadOrGenerateDilithiumKeys_try :: "platform \<Rightarrow> world \<Rightarrow> (exn + keypair) \<times> world" where
  "loadOrGenerateDilithiumKeys_try P w =
     (if existsSync w DILITHIUM_PRIVATE_KEY_PATH \<and> existsSync w DILITHIUM_PUBLIC_KEY_PATH
      then
        (case readFileSync w DILITHIUM_PRIVATE_KEY_PATH of
           Inl e \<Rightarrow> (Inl e, w)
         | Inr skt \<Rightarrow>
             (case readFileSync w DILITHIUM_PUBLIC_KEY_PATH of
                Inl e \<Rightarrow> (Inl e, w)
              | Inr pkt \<Rightarrow>
                  (Inr \<lparr>publicKey = hex_decode pkt, privateKey = hex_decode skt\<rparr>, w)))
      else generateDilithiumKeys P w)"

definition loadOrGenerateDilithiumKeys :: "platform \<Rightarrow> world \<Rightarrow> (exn + keypair) \<times> world" where
  "loadOrGenerateDilithiumKeys P w =
     (case loadOrGenerateDilithiumKeys_try P w of
        (Inl e, w') \<Rightarrow> generateDilithiumKeys P w'
      | (Inr k, w') \<Rightarrow> (Inr k, w'))"

section \<open>Envelope codec\<close>

record envelope =
  ciphertext :: string
  encryptedData :: string
  iv :: string

text \<open>
  The canonical text of a payload, as \<^verbatim>\<open>encryptData\<close>, \<^verbatim>\<open>signData\<close> and
  \<^verbatim>\<open>verifySignature\<close> compute it:
  \<^verbatim>\<open>typeof data === 'object' ? JSON.stringify(data) : data\<close>.
\<close>

definition dataString :: "platform \<Rightarrow> jsval \<Rightarrow> jsval" where
  "dataString P d = (if typeof_object d then JStr (json_stringify P d) else d)"

text \<open>
  \<^verbatim>\<open>encryptData\<close>: import, load the Kyber keys, encapsulate to the public key, take
  the shared secret's hex text as the AES key, draw an IV, encrypt the canonical text.
  Whatever is thrown becomes \<^verbatim>\<open>Failed to encrypt data\<close>.
\<close>

definition encryptData_try :: "platform \<Rightarrow> world \<Rightarrow> jsval \<Rightarrow> (exn + envelope) \<times> world" where
  "encryptData_try P w d =
     (case kem_import P of
        Inl e \<Rightarrow> (Inl e, w)
      | Inr u \<Rightarrow>
          (case loadOrGenerateKyberKeys P w of
             (Inl e, w1) \<Rightarrow> (Inl e, w1)
           | (Inr keys, w1) \<Rightarrow>
               (case draw w1 of
                  (r, w2) \<Rightarrow>
                    (case kem_encapsulate P r (publicKey keys) of
                       Inl e \<Rightarrow> (Inl e, w2)
                     | Inr (cipherText, sharedSecret) \<Rightarrow>
                         (case draw w2 of
                            (r', w3) \<Rightarrow>
                              (case aes_encrypt P (dataString P d) (hex_encode sharedSecret)
                                      (random_iv P r') of
                                 Inl e \<Rightarrow> (Inl e, w3)
                               | Inr encrypted \<Rightarrow>
                                   (Inr \<lparr>ciphertext = hex_encode cipherText,
                                         encryptedData = encrypted,
                                         iv = random_iv P r'\<rparr>, w3)))))))"

definition encryptData :: "platform \<Rightarrow> world \<Rightarrow> jsval \<Rightarrow> (exn + envelope) \<times> world" where
  "encryptData P w d =
     (case encryptData_try P w d of
        (Inl e, w') \<Rightarrow> (Inl (Error ''Failed to encrypt data''), w')
      | (Inr env, w') \<Rightarrow> (Inr env, w'))"

text \<open>
  \<^verbatim>\<open>decryptData\<close>: import, load the Kyber keys, decapsulate the hex-decoded KEM
  ciphertext with the private key, decrypt, then \<^verbatim>\<open>JSON.parse\<close> the text and fall
  back to the text itself when it does not parse. Whatever else is thrown becomes
  \<^verbatim>\<open>Failed to decrypt data\<close>.
\<close>

definition decryptData_try :: "platform \<Rightarrow> world \<Rightarrow> envelope \<Rightarrow> (exn + jsval) \<times> world" where
  "decryptData_try P w env =
     (case kem_import P of
        Inl e \<Rightarrow> (Inl e, w)
      | Inr u \<Rightarrow>
          (case loadOrGenerateKyberKeys P w of
             (Inl e, w1) \<Rightarrow> (Inl e, w1)
           | (Inr keys, w1) \<Rightarrow>
               (case kem_decapsulate P (hex_decode (ciphertext env)) (privateKey keys) of
                  Inl e \<Rightarrow> (Inl e, w1)
                | Inr sharedSecret \<Rightarrow>
                    (case aes_decrypt P (encryptedData env) (hex_encode sharedSecret) (iv env) of
                       Inl e \<Rightarrow> (Inl e, w1)
                     | Inr decryptedText \<Rightarrow>
                         (case json_parse P decryptedText of
                            Some v \<Rightarrow> (Inr v, w1)
                          | None \<Rightarrow> (Inr (JStr decryptedText), w1))))))"

definition decryptData :: "platform \<Rightarrow> world \<Rightarrow> envelope \<Rightarrow> (exn + jsval) \<times> world" where
  "decryptData P w env =
     (case decryptData_try P w env of
        (Inl e, w') \<Rightarrow> (Inl (Error ''Failed to decrypt data''), w')
      | (Inr v, w') \<Rightarrow> (Inr v, w'))"

section \<open>Signer and verifier\<close>

text \<open>
  \<^verbatim>\<open>signData\<close> returns the object \<^verbatim>\<open>{ data, signature }\<close> with the signature
  as hex text.
\<close>

definition signData_try :: "platform \<Rightarrow> world \<Rightarrow> jsval \<Rightarrow> (exn + jsval) \<times> world" where
  "signData_try P w d =
     (case dsa_import P of
        Inl e \<Rightarrow> (Inl e, w)
      | Inr u \<Rightarrow>
          (case loadOrGenerateDilithiumKeys P w of
             (Inl e, w1) \<Rightarrow> (Inl e, w1)
           | (Inr keys, w1) \<Rightarrow>
               (case buffer_from P (dataString P d) Utf8 of
                  Inl e \<Rightarrow> (Inl e, w1)
                | Inr msg \<Rightarrow>
                    (case draw w1 of
                       (r, w2) \<Rightarrow>
                         (case dsa_sign P r msg (privateKey keys) of
                            Inl e \<Rightarrow> (Inl e, w2)
                          | Inr sg \<Rightarrow>
                              (Inr (JObj [(''data'', d), (''signature'', JStr (hex_encode sg))]),
                               w2))))))"

definition signData :: "platform \<Rightarrow> world \<Rightarrow> jsval \<Rightarrow> (exn + jsval) \<times> world" where
  "signData P w d =
     (case signData_try P w d of
        (Inl e, w') \<Rightarrow> (Inl (Error ''Failed to sign data''), w')
      | (Inr pkg, w') \<Rightarrow> (Inr pkg, w'))"

text \<open>
  Reading a property for a destructuring \<^verbatim>\<open>const { data, signature } = x\<close>: a
  TypeError on undefined and null, undefined for a property that is not there.
\<close>

fun get_property :: "jsval \<Rightarrow> string \<Rightarrow> exn + jsval" where
  "get_property JUndefined k = Inl (Error ''TypeError'')"
| "get_property JNull k = Inl (Error ''TypeError'')"
| "get_property (JObj kvs) k =
     (case map_of kvs k of None \<Rightarrow> Inr JUndefined | Some v \<Rightarrow> Inr v)"
| "get_property v k = Inr JUndefined"

text \<open>
  \<^verbatim>\<open>verifySignature\<close>: the \<open>try\<close> body destructures the package, computes the
  canonical text, imports, loads the Dilithium keys and returns what
  \<^verbatim>\<open>dilithium.verify(Buffer.from(text, 'utf8'), Buffer.from(signature, 'hex'), publicKey)\<close>
  returns; the \<open>catch\<close> returns false.
\<close>

definition verifySignature_try :: "platform \<Rightarrow> world \<Rightarrow> jsval \<Rightarrow> (exn + bool) \<times> world" where
  "verifySignature_try P w pkg =
     (case get_property pkg ''data'' of
        Inl e \<Rightarrow> (Inl e, w)
      | Inr d \<Rightarrow>
          (case get_property pkg ''signature'' of
             Inl e \<Rightarrow> (Inl e, w)
           | Inr signature \<Rightarrow>
               (case dsa_import P of
                  Inl e \<Rightarrow> (Inl e, w)
                | Inr u \<Rightarrow>
                    (case loadOrGenerateDilithiumKeys P w of
                       (Inl e, w1) \<Rightarrow> (Inl e, w1)
                     | (Inr keys, w1) \<Rightarrow>
                         (case buffer_from P (dataString P d) Utf8 of
                            Inl e \<Rightarrow> (Inl e, w1)
                          | Inr msg \<Rightarrow>
                              (case buffer_from P signature Hex of
                                 Inl e \<Rightarrow> (Inl e, w1)
                               | Inr sg \<Rightarrow> (dsa_verify P msg sg (publicKey keys), w1)))))))"

definition verifySignature :: "platform \<Rightarrow> world \<Rightarrow> jsval \<Rightarrow> (exn + bool) \<times> world" where
  "verifySignature P w pkg =
     (case verifySignature_try P w pkg of
        (Inl e, w') \<Rightarrow> (Inr False, w')
      | (Inr b, w') \<Rightarrow> (Inr b, w'))"

section \<open>The encryption plugin\<close>

text \<open>
  A Mongoose document as the plugin sees it: the value of each path
  (\<^verbatim>\<open>this[field]\<close>, undefined when absent), the paths Mongoose reports as modified
  (\<^verbatim>\<open>this.isModified(field)\<close>), and the three maps \<^verbatim>\<open>_encrypted\<close>,
  \<^verbatim>\<open>_encryptedCiphers\<close>, \<^verbatim>\<open>_encryptedIVs\<close>, each of which may be missing.
\<close>

record doc =
  paths :: "string \<rightharpoonup> jsval"
  modified :: "string set"
  encrypted :: "(string \<rightharpoonup> string) option"
  encryptedCiphers :: "(string \<rightharpoonup> string) option"
  encryptedIVs :: "(string \<rightharpoonup> string) option"

definition field_value :: "doc \<Rightarrow> string \<Rightarrow> jsval" where
  "field_value d f = (case paths d f of None \<Rightarrow> JUndefined | Some v \<Rightarrow> v)"

definition isModified :: "doc \<Rightarrow> string \<Rightarrow> bool" where
  "isModified d f = (f \<in> modified d)"

text \<open>\<^verbatim>\<open>if (!this.m) this.m = new Map(); this.m.set(field, v)\<close>\<close>

definition map_set :: "(string \<rightharpoonup> string) option \<Rightarrow> string \<Rightarrow> string \<Rightarrow> (string \<rightharpoonup> string) option" where
  "map_set m f v = Some ((case m of None \<Rightarrow> Map.empty | Some g \<Rightarrow> g)(f \<mapsto> v))"

text \<open>\<^verbatim>\<open>this.m.get(field)\<close> where the map is there; \<open>None\<close> is undefined.\<close>

definition map_get :: "(string \<rightharpoonup> string) option \<Rightarrow> string \<Rightarrow> string option" where
  "map_get m f = (case m of None \<Rightarrow> None | Some g \<Rightarrow> g f)"

definition store_envelope :: "doc \<Rightarrow> string \<Rightarrow> envelope \<Rightarrow> doc" where
  "store_envelope d f env =
     d\<lparr>encrypted := map_set (encrypted d) f (encryptedData env),
       encryptedCiphers := map_set (encryptedCiphers d) f (ciphertext env),
       encryptedIVs := map_set (encryptedIVs d) f (iv env)\<rparr>"

text \<open>
  The pre-save hook, a loop over the declared fields: skip a field that is not
  modified, skip a field whose value is undefined or null, otherwise encrypt the value
  and store the three parts; an encryption error ends the hook with that error.
\<close>

fun preSave :: "platform \<Rightarrow> string list \<Rightarrow> world \<Rightarrow> doc \<Rightarrow> (exn + unit) \<times> world \<times> doc" where
  "preSave P [] w d = (Inr (), w, d)"
| "preSave P (f # fs) w d =
     (if \<not> isModified d f then preSave P fs w d
      else if field_value d f = JUndefined \<or> field_value d f = JNull then preSave P fs w d
      else
        (case encryptData P w (field_value d f) of
           (Inl e, w') \<Rightarrow> (Inl e, w', d)
         | (Inr env, w') \<Rightarrow> preSave P fs w' (store_envelope d f env)))"

text \<open>
  \<^verbatim>\<open>decryptField\<close>: an error for a field that is not declared; the stored value
  when a map is missing or one of the three parts is missing or empty; otherwise
  \<^verbatim>\<open>decryptData\<close> on the three parts, its error rethrown.
\<close>

definition decryptField :: "platform \<Rightarrow> string list \<Rightarrow> world \<Rightarrow> doc \<Rightarrow> string \<Rightarrow> (exn + jsval) \<times> world" where
  "decryptField P encryptedFields w d f =
     (if f \<notin> set encryptedFields
      then (Inl (Error (''Field '' @ f @ '' is not configured for encryption'')), w)
      else
        (case (map_get (encrypted d) f, map_get (encryptedCiphers d) f, map_get (encryptedIVs d) f) of
           (Some ed, Some ct, Some i) \<Rightarrow>
             if ed = [] \<or> ct = [] \<or> i = [] then (Inr (field_value d f), w)
             else decryptData P w \<lparr>ciphertext = ct, encryptedData = ed, iv = i\<rparr>
         | other \<Rightarrow> (Inr (field_value d f), w)))"

text \<open>
  \<^verbatim>\<open>decryptFields\<close>: for each declared field in turn, the decrypted value, or the
  stored value when \<^verbatim>\<open>decryptField\<close> throws. The result is the object built so far.
\<close>

fun decryptFields_loop ::
  "platform \<Rightarrow> string list \<Rightarrow> string list \<Rightarrow> world \<Rightarrow> doc \<Rightarrow> (string \<rightharpoonup> jsval) \<Rightarrow>
   (string \<rightharpoonup> jsval) \<times> world" where
  "decryptFields_loop P encryptedFields [] w d decrypted = (decrypted, w)"
| "decryptFields_loop P encryptedFields (f # fs) w d decrypted =
     (case decryptField P encryptedFields w d f of
        (Inr v, w') \<Rightarrow> decryptFields_loop P encryptedFields fs w' d (decrypted(f \<mapsto> v))
      | (Inl e, w') \<Rightarrow>
          decryptFields_loop P encryptedFields fs w' d (decrypted(f \<mapsto> field_value d f)))"

definition decryptFields ::
  "platform \<Rightarrow> string list \<Rightarrow> world \<Rightarrow> doc \<Rightarrow> (exn + (string \<rightharpoonup> jsval)) \<times> world" where
  "decryptFields P encryptedFields w d =
     (case decryptFields_loop P encryptedFields encryptedFields w d Map.empty of
        (decrypted, w') \<Rightarrow> (Inr decrypted, w'))"

section \<open>Safe projections of users and batches\<close>

text \<open>
  A plain object as \<^verbatim>\<open>toObject()\<close> returns it: every path with its value, and the
  three envelope maps under their keys when they are there.
\<close>

datatype property = Plain jsval | MapValue "string \<rightharpoonup> string"

type_synonym object = "string \<rightharpoonup> property"

definition toObject :: "doc \<Rightarrow> object" where
  "toObject d =
     (\<lambda>k. if k = ''_encrypted'' then map_option MapValue (encrypted d)
          else if k = ''_encryptedCiphers'' then map_option MapValue (encryptedCiphers d)
          else if k = ''_encryptedIVs'' then map_option MapValue (encryptedIVs d)
          else map_option Plain (paths d k))"

text \<open>\<^verbatim>\<open>Object.assign(target, decryptedFields)\<close> and \<^verbatim>\<open>delete target.key\<close>.\<close>

definition object_assign :: "object \<Rightarrow> (string \<rightharpoonup> jsval) \<Rightarrow> object" where
  "object_assign target src = (\<lambda>k. case src k of None \<Rightarrow> target k | Some v \<Rightarrow> Some (Plain v))"

definition delete_key :: "object \<Rightarrow> string \<Rightarrow> object" where
  "delete_key obj k = obj(k := None)"

definition userFields :: "string list" where
  "userFields = [''name'', ''email'', ''location'', ''company'']"

definition batchFields :: "string list" where
  "batchFields = [''cropName'', ''cropVariety'', ''location'', ''cropHealth'']"

definition userToSafeJSON :: "platform \<Rightarrow> world \<Rightarrow> doc \<Rightarrow> object \<times> world" where
  "userToSafeJSON P w d =
     (let user = toObject d in
      case decryptFields P userFields w d of
        (Inr decryptedFields, w') \<Rightarrow>
          (delete_key (delete_key (delete_key (delete_key
             (object_assign user decryptedFields)
             ''_encrypted'') ''_encryptedCiphers'') ''_encryptedIVs'') ''password'', w')
      | (Inl e, w') \<Rightarrow>
          (delete_key (delete_key (delete_key (delete_key user
             ''_encrypted'') ''_encryptedCiphers'') ''_encryptedIVs'') ''password'', w'))"

definition batchToSafeJSON :: "platform \<Rightarrow> world \<Rightarrow> doc \<Rightarrow> object \<times> world" where
  "batchToSafeJSON P w d =
     (let batch = toObject d in
      case decryptFields P batchFields w d of
        (Inr decryptedFields, w') \<Rightarrow>
          (delete_key (delete_key (delete_key
             (object_assign batch decryptedFields)
             ''_encrypted'') ''_encryptedCiphers'') ''_encryptedIVs'', w')
      | (Inl e, w') \<Rightarrow>
          (delete_key (delete_key (delete_key batch
             ''_encrypted'') ''_encryptedCiphers'') ''_encryptedIVs'', w'))"

section \<open>Auxiliary notions for the proofs\<close>

text \<open>
  A key file is in order when it is absent or readable: the loader then never meets a
  file that exists and cannot be read.
\<close>

definition key_file_ok :: "world \<Rightarrow> string \<Rightarrow> bool" where
  "key_file_ok w p = (case files w p of None \<Rightarrow> True | Some f \<Rightarrow> readable f)"

text \<open>
  The two generators and the two loaders differ only in the import, the key generation,
  the two paths and the message. The proofs work on this common form, with the
  \<open>try\<close>/\<open>catch\<close> pairs merged.
\<close>

definition generateKeys ::
  "(exn + unit) \<Rightarrow> (nat \<Rightarrow> exn + (bytes \<times> bytes)) \<Rightarrow> string \<Rightarrow> string \<Rightarrow> string \<Rightarrow>
   world \<Rightarrow> (exn + keypair) \<times> world" where
  "generateKeys imp keygen priv pub msg w =
     (case imp of
        Inl e \<Rightarrow> (Inl (Error msg), w)
      | Inr u \<Rightarrow>
          (case keygen (entropy w) of
             Inl e \<Rightarrow> (Inl (Error msg), w\<lparr>entropy := Suc (entropy w)\<rparr>)
           | Inr (pk, sk) \<Rightarrow>
               (case writeFileSync (w\<lparr>entropy := Suc (entropy w)\<rparr>) priv (hex_encode sk) of
                  (Inl e, w2) \<Rightarrow> (Inl (Error msg), w2)
                | (Inr u2, w2) \<Rightarrow>
                    (case writeFileSync w2 pub (hex_encode pk) of
                       (Inl e, w3) \<Rightarrow> (Inl (Error msg), w3)
                     | (Inr u3, w3) \<Rightarrow> (Inr \<lparr>publicKey = pk, privateKey = sk\<rparr>, w3)))))"

definition loadOrGenerateKeys ::
  "(exn + unit) \<Rightarrow> (nat \<Rightarrow> exn + (bytes \<times> bytes)) \<Rightarrow> string \<Rightarrow> string \<Rightarrow> string \<Rightarrow>
   world \<Rightarrow> (exn + keypair) \<times> world" where
  "loadOrGenerateKeys imp keygen priv pub msg w =
     (if existsSync w priv \<and> existsSync w pub
      then
        (case readFileSync w priv of
           Inl e \<Rightarrow> generateKeys imp keygen priv pub msg w
         | Inr skt \<Rightarrow>
             (case readFileSync w pub of
                Inl e \<Rightarrow> generateKeys imp keygen priv pub msg w
              | Inr pkt \<Rightarrow> (Inr \<lparr>publicKey = hex_decode pkt, privateKey = hex_decode skt\<rparr>, w)))
      else
        (case generateKeys imp keygen priv pub msg w of
           (Inl e, w') \<Rightarrow> generateKeys imp keygen priv pub msg w'
         | (Inr k, w') \<Rightarrow> (Inr k, w')))"

text \<open>
  The key store of a scheme is in order when both key files are in order and, if both
  can be read, they hold the two halves of one generated pair.
\<close>

definition store_ok :: "(nat \<Rightarrow> exn + (bytes \<times> bytes)) \<Rightarrow> string \<Rightarrow> string \<Rightarrow> world \<Rightarrow> bool" where
  "store_ok keygen priv pub w =
     (key_file_ok w priv \<and> key_file_ok w pub \<and>
      (\<forall>s p. readFileSync w priv = Inr s \<longrightarrow> readFileSync w pub = Inr p \<longrightarrow>
         (\<exists>r. keygen r = Inr (hex_decode p, hex_decode s))))"

definition kyber_store_ok :: "platform \<Rightarrow> world \<Rightarrow> bool" where
  "kyber_store_ok P w = store_ok (kem_keygen P) KYBER_PRIVATE_KEY_PATH KYBER_PUBLIC_KEY_PATH w"

text \<open>
  What the libraries promise. A KEM is correct when decapsulating with the secret key
  of a generated pair returns the secret that encapsulating to its public key produced;
  the symmetric cipher is correct when decrypting under the same key and IV returns the
  text that was encrypted.
\<close>

definition kem_correct :: "platform \<Rightarrow> bool" where
  "kem_correct P =
     (\<forall>r r' pk sk ct ss. kem_keygen P r = Inr (pk, sk) \<longrightarrow>
        kem_encapsulate P r' pk = Inr (ct, ss) \<longrightarrow> kem_decapsulate P ct sk = Inr ss)"

definition sym_correct :: "platform \<Rightarrow> bool" where
  "sym_correct P =
     (\<forall>m k i c. aes_encrypt P (JStr m) k i = Inr c \<longrightarrow> aes_decrypt P c k i = Inr m)"

text \<open>
  A signature scheme is correct when a signature made with the secret key of a generated
  pair is accepted by \<^verbatim>\<open>verify(signature, message, publicKey)\<close> under the public
  key of that pair.
\<close>

definition dsa_correct :: "platform \<Rightarrow> bool" where
  "dsa_correct P =
     (\<forall>r r' pk sk m sg. dsa_keygen P r = Inr (pk, sk) \<longrightarrow>
        dsa_sign P r' m sk = Inr sg \<longrightarrow> dsa_verify P sg m pk = Inr True)"

text \<open>
  The pre-save hook's test on a value, \<^verbatim>\<open>this[field] === undefined || this[field] === null\<close>,
  negated: the value is neither undefined nor null. Every other value passes it, the
  empty string, the empty array and the empty object among them.
\<close>

definition has_value :: "jsval \<Rightarrow> bool" where
  "has_value v = (v \<noteq> JUndefined \<and> v \<noteq> JNull)"

text \<open>The three stored envelope parts of a field, each undefined when not there.\<close>

definition stored_parts :: "doc \<Rightarrow> string \<Rightarrow> string option \<times> string option \<times> string option" where
  "stored_parts d f =
     (map_get (encrypted d) f, map_get (encryptedCiphers d) f, map_get (encryptedIVs d) f)"

text \<open>
  The surroundings in which the pre-save hook reaches a field, after the fields
  \<open>pre\<close> before it: every one of those that is modified and has a value has been
  through \<^verbatim>\<open>encryptData\<close>, in turn.
\<close>

definition hook_world :: "platform \<Rightarrow> string list \<Rightarrow> world \<Rightarrow> doc \<Rightarrow> world" where
  "hook_world P pre w d =
     foldl (\<lambda>w' g. if isModified d g \<and> has_value (field_value d g)
                    then snd (encryptData P w' (field_value d g)) else w') w pre"

text \<open>
  The surroundings in which \<^verbatim>\<open>decryptFields\<close> reaches a field, after the fields
  \<open>pre\<close> before it: every one of those has been through \<^verbatim>\<open>decryptField\<close>, in
  turn.
\<close>

definition loop_world :: "platform \<Rightarrow> string list \<Rightarrow> string list \<Rightarrow> world \<Rightarrow> doc \<Rightarrow> world" where
  "loop_world P encryptedFields pre w d =
     foldl (\<lambda>w' g. snd (decryptField P encryptedFields w' d g)) w pre"

section \<open>A reference platform\<close>

text \<open>
  One concrete platform, small enough to compute with, on which the statements below
  are exercised: a JSON codec for integers, strings, booleans, null, arrays and objects,
  a toy KEM and signature scheme over one-byte keys, and a cipher that masks the low
  four bits of every character with those of the key's last character. It stands in
  for the real libraries only where a concrete run is wanted.
\<close>

definition digit_char :: "nat \<Rightarrow> char" where
  "digit_char n = char_of (48 + n mod 10)"

fun show_nat :: "nat \<Rightarrow> string" where
  "show_nat n = (if n < 10 then [digit_char n] else show_nat (n div 10) @ [digit_char n])"

definition show_int :: "int \<Rightarrow> string" where
  "show_int i = (if i < 0 then CHR ''-'' # show_nat (nat (- i)) else show_nat (nat i))"

definition quote_char :: char where "quote_char = CHR 0x22"
definition backslash :: char where "backslash = CHR 0x5C"

fun escape :: "string \<Rightarrow> string" where
  "escape [] = []"
| "escape (c # cs) =
     (if c = quote_char \<or> c = backslash then backslash # c # escape cs else c # escape cs)"

definition quote :: "string \<Rightarrow> string" where
  "quote s = quote_char # escape s @ [quote_char]"

fun comma_join :: "string list \<Rightarrow> string" where
  "comma_join [] = []"
| "comma_join [x] = x"
| "comma_join (x # y # ys) = x @ '','' @ comma_join (y # ys)"

fun ref_stringify :: "jsval \<Rightarrow> string"
  and ref_stringify_elements :: "jsval list \<Rightarrow> string list"
  and ref_stringify_members :: "(string \<times> jsval) list \<Rightarrow> string list" where
  "ref_stringify JUndefined = ''null''"
| "ref_stringify JNull = ''null''"
| "ref_stringify (JBool b) = (if b then ''true'' else ''false'')"
| "ref_stringify (JNum i) = show_int i"
| "ref_stringify (JStr s) = quote s"
| "ref_stringify (JArr xs) = ''['' @ comma_join (ref_stringify_elements xs) @ '']''"
| "ref_stringify (JObj kvs) = ''{'' @ comma_join (ref_stringify_members kvs) @ ''}''"
| "ref_stringify_elements [] = []"
| "ref_stringify_elements (x # xs) = ref_stringify x # ref_stringify_elements xs"
| "ref_stringify_members [] = []"
| "ref_stringify_members ((k, v) # kvs) =
     (if v = JUndefined then ref_stringify_members kvs
      else (quote k @ '':'' @ ref_stringify v) # ref_stringify_members kvs)"

definition is_ws :: "char \<Rightarrow> bool" where
  "is_ws c = (c = CHR 0x20 \<or> c = CHR 0x0A \<or> c = CHR 0x0D \<or> c = CHR 0x09)"

definition skip_ws :: "string \<Rightarrow> string" where
  "skip_ws s = dropWhile is_ws s"

definition is_digit :: "char \<Rightarrow> bool" where
  "is_digit c = (48 \<le> (of_char c :: nat) \<and> (of_char c :: nat) \<le> 57)"

definition digits_value :: "string \<Rightarrow> nat" where
  "digits_value ds = foldl (\<lambda>a c. 10 * a + (of_char c - 48)) 0 ds"

definition parse_number :: "string \<Rightarrow> (nat \<times> string) option" where
  "parse_number s =
     (let ds = takeWhile is_digit s in
      if ds = [] \<or> (hd ds = CHR ''0'' \<and> length ds > 1) then None
      else Some (digits_value ds, dropWhile is_digit s))"

fun parse_string_body :: "string \<Rightarrow> (string \<times> string) option" where
  "parse_string_body [] = None"
| "parse_string_body (c # r) =
     (if c = quote_char then Some ([], r)
      else if c = backslash then
        (case r of
           [] \<Rightarrow> None
         | e # r' \<Rightarrow>
             if e = quote_char \<or> e = backslash then
               (case parse_string_body r' of
                  None \<Rightarrow> None
                | Some (str, rest) \<Rightarrow> Some (e # str, rest))
             else None)
      else
        (case parse_string_body r of
           None \<Rightarrow> None
         | Some (str, rest) \<Rightarrow> Some (c # str, rest)))"

fun parse_value :: "nat \<Rightarrow> string \<Rightarrow> (jsval \<times> string) option"
  and parse_elements :: "nat \<Rightarrow> string \<Rightarrow> (jsval list \<times> string) option"
  and parse_members :: "nat \<Rightarrow> string \<Rightarrow> ((string \<times> jsval) list \<times> string) option" where
  "parse_value 0 s = None"
| "parse_value (Suc n) s =
     (let t = skip_ws s in
      if take 4 t = ''null'' then Some (JNull, drop 4 t)
      else if take 4 t = ''true'' then Some (JBool True, drop 4 t)
      else if take 5 t = ''false'' then Some (JBool False, drop 5 t)
      else
        (case t of
           [] \<Rightarrow> None
         | c # r \<Rightarrow>
             if c = quote_char then
               (case parse_string_body r of
                  None \<Rightarrow> None
                | Some (str, rest) \<Rightarrow> Some (JStr str, rest))
             else if c = CHR ''['' then
               (if take 1 (skip_ws r) = '']'' then Some (JArr [], drop 1 (skip_ws r))
                else
                  (case parse_elements n r of
                     None \<Rightarrow> None
                   | Some (vs, rest) \<Rightarrow> Some (JArr vs, rest)))
             else if c = CHR ''{'' then
               (if take 1 (skip_ws r) = ''}'' then Some (JObj [], drop 1 (skip_ws r))
                else
                  (case parse_members n r of
                     None \<Rightarrow> None
                   | Some (kvs, rest) \<Rightarrow> Some (JObj kvs, rest)))
             else if c = CHR ''-'' then
               (case parse_number r of
                  None \<Rightarrow> None
                | Some (k, rest) \<Rightarrow> Some (JNum (- int k), rest))
             else
               (case parse_number t of
                  None \<Rightarrow> None
                | Some (k, rest) \<Rightarrow> Some (JNum (int k), rest))))"
| "parse_elements 0 s = None"
| "parse_elements (Suc n) s =
     (case parse_value n s of
        None \<Rightarrow> None
      | Some (v, r) \<Rightarrow>
          (case skip_ws r of
             [] \<Rightarrow> None
           | c # r' \<Rightarrow>
               if c = CHR '']'' then Some ([v], r')
               else if c = CHR '','' then
                 (case parse_elements n r' of
                    None \<Rightarrow> None
                  | Some (vs, rest) \<Rightarrow> Some (v # vs, rest))
               else None))"
| "parse_members 0 s = None"
| "parse_members (Suc n) s =
     (case skip_ws s of
        [] \<Rightarrow> None
      | q # r0 \<Rightarrow>
          if q \<noteq> quote_char then None
          else
            (case parse_string_body r0 of
               None \<Rightarrow> None
             | Some (k, r1) \<Rightarrow>
                 (case skip_ws r1 of
                    [] \<Rightarrow> None
                  | c # r2 \<Rightarrow>
                      if c \<noteq> CHR '':'' then None
                      else
                        (case parse_value n r2 of
                           None \<Rightarrow> None
                         | Some (v, r3) \<Rightarrow>
                             (case skip_ws r3 of
                                [] \<Rightarrow> None
                              | c' # r4 \<Rightarrow>
                                  if c' = CHR ''}'' then Some ([(k, v)], r4)
                                  else if c' = CHR '','' then
                                    (case parse_members n r4 of
                                       None \<Rightarrow> None
                                     | Some (kvs, rest) \<Rightarrow> Some ((k, v) # kvs, rest))
                                  else None)))))"

definition ref_parse :: "string \<Rightarrow> jsval option" where
  "ref_parse s =
     (case parse_value (2 * length s + 2) s of
        None \<Rightarrow> None
      | Some (v, rest) \<Rightarrow> if skip_ws rest = [] then Some v else None)"

definition ref_kem_keygen :: "nat \<Rightarrow> exn + (bytes \<times> bytes)" where
  "ref_kem_keygen r = Inr ([of_nat r + 1], [of_nat r])"

definition ref_kem_encapsulate :: "nat \<Rightarrow> bytes \<Rightarrow> exn + (bytes \<times> bytes)" where
  "ref_kem_encapsulate r pk = Inr (map (\<lambda>p. p + of_nat r) pk, map (\<lambda>p. of_nat r) pk)"

definition ref_kem_decapsulate :: "bytes \<Rightarrow> bytes \<Rightarrow> exn + bytes" where
  "ref_kem_decapsulate ct sk =
     (if length ct \<noteq> length sk then Inl (Error ''invalid ciphertext length'')
      else Inr (map (\<lambda>(c, s). c - (s + 1)) (zip ct sk)))"

definition ref_dsa_keygen :: "nat \<Rightarrow> exn + (bytes \<times> bytes)" where
  "ref_dsa_keygen r = Inr ([of_nat r], [of_nat r])"

definition ref_dsa_sign :: "nat \<Rightarrow> bytes \<Rightarrow> bytes \<Rightarrow> exn + bytes" where
  "ref_dsa_sign r msg sk = Inr (sk @ msg)"

definition ref_dsa_verify :: "bytes \<Rightarrow> bytes \<Rightarrow> bytes \<Rightarrow> exn + bool" where
  "ref_dsa_verify sg msg pk = Inr (sg = pk @ msg)"

definition mask :: "char \<Rightarrow> char \<Rightarrow> char" where
  "mask k c =
     Char (digit0 c \<noteq> digit0 k) (digit1 c \<noteq> digit1 k) (digit2 c \<noteq> digit2 k)
       (digit3 c \<noteq> digit3 k) (digit4 c) (digit5 c) (digit6 c) (digit7 c)"

definition key_char :: "string \<Rightarrow> char" where
  "key_char k = (case rev k of [] \<Rightarrow> CHR ''0'' | c # cs \<Rightarrow> c)"

definition ref_aes_encrypt :: "jsval \<Rightarrow> string \<Rightarrow> string \<Rightarrow> exn + string" where
  "ref_aes_encrypt msg k i =
     (case msg of
        JStr m \<Rightarrow> Inr (map (mask (key_char k)) m)
      | other \<Rightarrow> Inl (Error ''message is not a string''))"

definition ref_aes_decrypt :: "string \<Rightarrow> string \<Rightarrow> string \<Rightarrow> exn + string" where
  "ref_aes_decrypt ct k i = Inr (map (mask (key_char k)) ct)"

definition ref_random_iv :: "nat \<Rightarrow> string" where
  "ref_random_iv r =
     (let b = hex_encode [of_nat r]
      in b @ b @ b @ b @ b @ b @ b @ b @ b @ b @ b @ b @ b @ b @ b @ b)"

definition ref_platform :: platform where
  "ref_platform =
     \<lparr>kem_import = Inr (),
      kem_keygen = ref_kem_keygen,
      kem_encapsulate = ref_kem_encapsulate,
      kem_decapsulate = ref_kem_decapsulate,
      dsa_import = Inr (),
      dsa_keygen = ref_dsa_keygen,
      dsa_sign = ref_dsa_sign,
      dsa_verify = ref_dsa_verify,
      random_iv = ref_random_iv,
      aes_encrypt = ref_aes_encrypt,
      aes_decrypt = ref_aes_decrypt,
      json_stringify = ref_stringify,
      json_parse = ref_parse,
      buffer_from_object = (\<lambda>v. Inl (Error ''TypeError''))\<rparr>"

text \<open>An empty, writable key directory.\<close>

definition fresh_world :: world where
  "fresh_world = \<lparr>files = Map.empty, dir_writable = True, entropy = 0\<rparr>"

text \<open>
  A user record about to be saved again: the name was encrypted by an earlier save and
  is not modified, the location is modified, the company is modified and null.
\<close>

definition saved_user :: doc where
  "saved_user =
     \<lparr>paths = [''name'' \<mapsto> JStr ''Meher'', ''location'' \<mapsto> JStr ''Pune'', ''company'' \<mapsto> JNull],
      modified = {''location'', ''company''},
      encrypted = Some [''name'' \<mapsto> ''Ldids''],
      encryptedCiphers = Some [''name'' \<mapsto> ''02''],
      encryptedIVs = Some [''name'' \<mapsto> ''02020202020202020202020202020202'']\<rparr>"

text \<open>A new user record whose location is the empty string.\<close>

definition blank_user :: doc where
  "blank_user =
     \<lparr>paths = [''name'' \<mapsto> JStr ''Meher'', ''location'' \<mapsto> JStr []],
      modified = {''name'', ''location''},
      encrypted = None,
      encryptedCiphers = None,
      encryptedIVs = None\<rparr>"

text \<open>
  A user record as loaded: the location has a sound envelope under the key pair that
  the reference platform generates first; the KEM ciphertext stored for the name is
  not hex text.
\<close>

definition damaged_user :: doc where
  "damaged_user =
     \<lparr>paths = [''name'' \<mapsto> JStr ''Meher'', ''location'' \<mapsto> JStr ''stored''],
      modified = {},
      encrypted = Some [''name'' \<mapsto> ''Ldids'', ''location'' \<mapsto> ''Qtod''],
      encryptedCiphers = Some [''name'' \<mapsto> ''zz'', ''location'' \<mapsto> ''02''],
      encryptedIVs = Some [''name'' \<mapsto> ''02020202020202020202020202020202'',
                           ''location'' \<mapsto> ''02020202020202020202020202020202'']\<rparr>"

text \<open>
  A key directory whose private key files exist but cannot be read (write-only files).
\<close>

definition locked_world :: world where
  "locked_world =
     \<lparr>files = [KYBER_PRIVATE_KEY_PATH \<mapsto> \<lparr>readable = False, writable = True, content = ''00''\<rparr>,
               KYBER_PUBLIC_KEY_PATH \<mapsto> \<lparr>readable = True, writable = True, content = ''01''\<rparr>,
               DILITHIUM_PRIVATE_KEY_PATH \<mapsto> \<lparr>readable = False, writable = True, content = ''00''\<rparr>,
               DILITHIUM_PUBLIC_KEY_PATH \<mapsto> \<lparr>readable = True, writable = True, content = ''00''\<rparr>],
      dir_writable = True, entropy = 7\<rparr>"

text \<open>A key directory that holds the Kyber pair generated from draw 5.\<close>

definition world_B :: world where
  "world_B =
     \<lparr>files = [KYBER_PRIVATE_KEY_PATH \<mapsto> \<lparr>readable = True, writable = True, content = ''05''\<rparr>,
               KYBER_PUBLIC_KEY_PATH \<mapsto> \<lparr>readable = True, writable = True, content = ''06''\<rparr>],
      dir_writable = True, entropy = 9\<rparr>"

text \<open>A structured value.\<close>

definition crop_record :: jsval where
  "crop_record = JObj [(''crop'', JStr ''millet''), (''kg'', JNum 40), (''organic'', JBool True)]"

section \<open>Hex text\<close>

lemma hex_digits_decode: "list_all (\<lambda>n. hex_value (hex_digit n) = Some n) [0..<16]"
  by (simp add: upt_rec hex_value_def hex_digit_def)

lemma hex_decode_ignores_case: "hex_decode ''AB'' = hex_decode ''ab''"
  by (simp add: hex_value_def)

lemma hex_value_hex_digit: "n < 16 \<Longrightarrow> hex_value (hex_digit n) = Some n"
  using hex_digits_decode by (simp add: list_all_iff)

lemma hex_decode_encode: "hex_decode (hex_encode bs) = bs"
proof (induction bs)
  case Nil
  show ?case by simp
next
  case (Cons b bs)
  have "unat b < 2 ^ LENGTH(8)" by (rule unsigned_less)
  then have "unat b div 16 < 16" by simp
  then have hi: "hex_value (hex_digit (unat b div 16)) = Some (unat b div 16)"
    by (rule hex_value_hex_digit)
  have lo: "hex_value (hex_digit (unat b mod 16)) = Some (unat b mod 16)"
    by (rule hex_value_hex_digit) simp
  show ?case
    using Cons.IH by (simp add: hi lo)
qed

section \<open>Key store\<close>
lemma generateKyberKeys_generic:
  "generateKyberKeys P w =
     generateKeys (kem_import P) (kem_keygen P) KYBER_PRIVATE_KEY_PATH KYBER_PUBLIC_KEY_PATH
       ''Failed to generate Kyber keys'' w"
  by (simp add: generateKyberKeys_def generateKyberKeys_try_def generateKeys_def draw_def
      split: sum.splits prod.splits)

lemma generateDilithiumKeys_generic:
  "generateDilithiumKeys P w =
     generateKeys (dsa_import P) (dsa_keygen P) DILITHIUM_PRIVATE_KEY_PATH DILITHIUM_PUBLIC_KEY_PATH
       ''Failed to generate Dilithium keys'' w"
  by (simp add: generateDilithiumKeys_def generateDilithiumKeys_try_def generateKeys_def draw_def
      split: sum.splits prod.splits)

lemma loadOrGenerateKyberKeys_generic:
  "loadOrGenerateKyberKeys P w =
     loadOrGenerateKeys (kem_import P) (kem_keygen P) KYBER_PRIVATE_KEY_PATH KYBER_PUBLIC_KEY_PATH
       ''Failed to generate Kyber keys'' w"
  by (simp add: loadOrGenerateKyberKeys_def loadOrGenerateKyberKeys_try_def loadOrGenerateKeys_def
      generateKyberKeys_generic split: sum.splits prod.splits)

lemma loadOrGenerateDilithiumKeys_generic:
  "loadOrGenerateDilithiumKeys P w =
     loadOrGenerateKeys (dsa_import P) (dsa_keygen P) DILITHIUM_PRIVATE_KEY_PATH
       DILITHIUM_PUBLIC_KEY_PATH ''Failed to generate Dilithium keys'' w"
  by (simp add: loadOrGenerateDilithiumKeys_def loadOrGenerateDilithiumKeys_try_def
      loadOrGenerateKeys_def generateDilithiumKeys_generic split: sum.splits prod.splits)

lemma kyber_paths_distinct: "KYBER_PRIVATE_KEY_PATH \<noteq> KYBER_PUBLIC_KEY_PATH"
  by (simp add: KYBER_PRIVATE_KEY_PATH_def KYBER_PUBLIC_KEY_PATH_def)

lemma dilithium_paths_distinct: "DILITHIUM_PRIVATE_KEY_PATH \<noteq> DILITHIUM_PUBLIC_KEY_PATH"
  by (simp add: DILITHIUM_PRIVATE_KEY_PATH_def DILITHIUM_PUBLIC_KEY_PATH_def)

lemma readFileSync_entropy [simp]: "readFileSync (w\<lparr>entropy := n\<rparr>) p = readFileSync w p"
  by (simp add: readFileSync_def)

lemma key_file_ok_entropy [simp]: "key_file_ok (w\<lparr>entropy := n\<rparr>) p = key_file_ok w p"
  by (simp add: key_file_ok_def)

lemma existsSync_entropy [simp]: "existsSync (w\<lparr>entropy := n\<rparr>) p = existsSync w p"
  by (simp add: existsSync_def)

lemma read_after_write:
  "writeFileSync w p txt = (Inr u, w') \<Longrightarrow> key_file_ok w p \<Longrightarrow> readFileSync w' p = Inr txt"
  by (auto simp: writeFileSync_def readFileSync_def key_file_ok_def split: option.splits if_splits)

lemma read_other_write:
  "writeFileSync w p txt = (r, w') \<Longrightarrow> q \<noteq> p \<Longrightarrow> readFileSync w' q = readFileSync w q"
  by (auto simp: writeFileSync_def readFileSync_def split: option.splits if_splits)

lemma write_keeps_ok:
  "writeFileSync w p txt = (r, w') \<Longrightarrow> key_file_ok w q \<Longrightarrow> key_file_ok w' q"
  by (auto simp: writeFileSync_def key_file_ok_def split: option.splits if_splits)

lemma read_exists: "readFileSync w p = Inr txt \<Longrightarrow> existsSync w p"
  by (auto simp: readFileSync_def existsSync_def split: option.splits)

lemma read_of_ok: "existsSync w p \<Longrightarrow> key_file_ok w p \<Longrightarrow> \<exists>txt. readFileSync w p = Inr txt"
  by (auto simp: readFileSync_def existsSync_def key_file_ok_def split: option.splits)

lemma generateKeys_cases:
  assumes "generateKeys imp keygen priv pub msg w = (r, w')"
  obtains
    (no_import) "r = Inl (Error msg)" "w' = w"
  | (no_keys) "r = Inl (Error msg)" "w' = w\<lparr>entropy := Suc (entropy w)\<rparr>"
  | (no_private) sk e where "r = Inl (Error msg)"
      "writeFileSync (w\<lparr>entropy := Suc (entropy w)\<rparr>) priv (hex_encode sk) = (Inl e, w')"
  | (no_public) pk sk u2 w2 e where "r = Inl (Error msg)"
      "writeFileSync (w\<lparr>entropy := Suc (entropy w)\<rparr>) priv (hex_encode sk) = (Inr u2, w2)"
      "writeFileSync w2 pub (hex_encode pk) = (Inl e, w')"
  | (generated) pk sk u2 w2 u3 where "r = Inr \<lparr>publicKey = pk, privateKey = sk\<rparr>"
      "keygen (entropy w) = Inr (pk, sk)"
      "writeFileSync (w\<lparr>entropy := Suc (entropy w)\<rparr>) priv (hex_encode sk) = (Inr u2, w2)"
      "writeFileSync w2 pub (hex_encode pk) = (Inr u3, w')"
proof (cases imp)
  case (Inl e)
  with assms no_import show ?thesis by (simp add: generateKeys_def)
next
  case imp: (Inr u)
  show ?thesis
  proof (cases "keygen (entropy w)")
    case (Inl e)
    with assms imp no_keys show ?thesis by (simp add: generateKeys_def)
  next
    case (Inr ks)
    obtain pk sk where ks: "ks = (pk, sk)" by (cases ks)
    obtain r2 w2 where wr2:
      "writeFileSync (w\<lparr>entropy := Suc (entropy w)\<rparr>) priv (hex_encode sk) = (r2, w2)"
      by (cases "writeFileSync (w\<lparr>entropy := Suc (entropy w)\<rparr>) priv (hex_encode sk)")
    show ?thesis
    proof (cases r2)
      case (Inl e)
      with assms imp Inr ks wr2 have "r = Inl (Error msg)" "w' = w2"
        by (simp_all add: generateKeys_def)
      with wr2 Inl no_private show ?thesis by simp
    next
      case r2: (Inr u2)
      obtain r3 w3 where wr3: "writeFileSync w2 pub (hex_encode pk) = (r3, w3)"
        by (cases "writeFileSync w2 pub (hex_encode pk)")
      show ?thesis
      proof (cases r3)
        case (Inl e)
        with assms imp Inr ks wr2 r2 wr3 have "r = Inl (Error msg)" "w' = w3"
          by (simp_all add: generateKeys_def)
        with wr2 r2 wr3 Inl no_public show ?thesis by simp
      next
        case r3: (Inr u3)
        with assms imp Inr ks wr2 r2 wr3
        have "r = Inr \<lparr>publicKey = pk, privateKey = sk\<rparr>" "w' = w3"
          by (simp_all add: generateKeys_def)
        with Inr ks wr2 r2 wr3 r3 generated show ?thesis by simp
      qed
    qed
  qed
qed

lemma generateKeys_keeps_ok:
  assumes "generateKeys imp keygen priv pub msg w = (r, w')" and that: "key_file_ok w q"
  shows "key_file_ok w' q"
  using assms(1)
proof (cases rule: generateKeys_cases)
  case no_import
  then show ?thesis using that by simp
next
  case no_keys
  then show ?thesis using that by simp
next
  case (no_private sk e)
  show ?thesis by (rule write_keeps_ok [OF no_private(2)]) (simp add: that)
next
  case (no_public pk sk u2 w2 e)
  have "key_file_ok w2 q" by (rule write_keeps_ok [OF no_public(2)]) (simp add: that)
  then show ?thesis by (rule write_keeps_ok [OF no_public(3)])
next
  case (generated pk sk u2 w2 u3)
  have "key_file_ok w2 q" by (rule write_keeps_ok [OF generated(3)]) (simp add: that)
  then show ?thesis by (rule write_keeps_ok [OF generated(4)])
qed

lemma generateKeys_ok:
  assumes gen: "generateKeys imp keygen priv pub msg w = (Inr k, w')"
    and ok: "key_file_ok w priv" "key_file_ok w pub"
    and ne: "priv \<noteq> pub"
  shows "readFileSync w' priv = Inr (hex_encode (privateKey k)) \<and>
         readFileSync w' pub = Inr (hex_encode (publicKey k)) \<and>
         (\<exists>r. keygen r = Inr (publicKey k, privateKey k))"
  using gen
proof (cases rule: generateKeys_cases)
  case (generated pk sk u2 w2 u3)
  have k: "publicKey k = pk" "privateKey k = sk"
    using generated(1) by simp_all
  have "readFileSync w2 priv = Inr (hex_encode sk)"
    by (rule read_after_write [OF generated(3)]) (simp add: ok)
  moreover have "readFileSync w' priv = readFileSync w2 priv"
    by (rule read_other_write [OF generated(4) ne])
  ultimately have a: "readFileSync w' priv = Inr (hex_encode sk)"
    by simp
  have "key_file_ok w2 pub"
    by (rule write_keeps_ok [OF generated(3)]) (simp add: ok)
  with generated(4) have b: "readFileSync w' pub = Inr (hex_encode pk)"
    by (rule read_after_write)
  have "\<exists>r. keygen r = Inr (pk, sk)"
    using generated(2) by (rule exI)
  with a b show ?thesis by (simp add: k)
next
  case no_import
  then show ?thesis by simp
next
  case no_keys
  then show ?thesis by simp
next
  case (no_private sk e)
  then show ?thesis by simp
next
  case (no_public pk sk u2 w2 e)
  from no_public(1) show ?thesis by simp
qed

lemma loadOrGenerateKeys_read:
  "readFileSync w priv = Inr s \<Longrightarrow> readFileSync w pub = Inr p \<Longrightarrow>
   loadOrGenerateKeys imp keygen priv pub msg w =
     (Inr \<lparr>publicKey = hex_decode p, privateKey = hex_decode s\<rparr>, w)"
  by (simp add: loadOrGenerateKeys_def read_exists)

lemma loadOrGenerateKeys_result:
  assumes load: "loadOrGenerateKeys imp keygen priv pub msg w = (Inr k, w')"
    and ok: "key_file_ok w priv" "key_file_ok w pub"
    and ne: "priv \<noteq> pub"
  shows "\<exists>s p. readFileSync w' priv = Inr s \<and> readFileSync w' pub = Inr p \<and>
           k = \<lparr>publicKey = hex_decode p, privateKey = hex_decode s\<rparr> \<and>
           ((existsSync w priv \<and> existsSync w pub \<and> w' = w) \<or>
            (\<exists>r. keygen r = Inr (hex_decode p, hex_decode s)))"
proof (cases "existsSync w priv \<and> existsSync w pub")
  case True
  then obtain s p where r: "readFileSync w priv = Inr s" "readFileSync w pub = Inr p"
    using ok read_of_ok by blast
  then have "k = \<lparr>publicKey = hex_decode p, privateKey = hex_decode s\<rparr>" "w' = w"
    using load by (simp_all add: loadOrGenerateKeys_read)
  with r True show ?thesis by auto
next
  case False
  obtain r1 w1 where g1: "generateKeys imp keygen priv pub msg w = (r1, w1)"
    by (cases "generateKeys imp keygen priv pub msg w")
  have ok1: "key_file_ok w1 priv" "key_file_ok w1 pub"
    using g1 ok by (auto dest: generateKeys_keeps_ok)
  have "\<exists>w0. generateKeys imp keygen priv pub msg w0 = (Inr k, w') \<and>
         key_file_ok w0 priv \<and> key_file_ok w0 pub"
  proof (cases r1)
    case (Inl e)
    then have "generateKeys imp keygen priv pub msg w1 = (Inr k, w')"
      using load False g1 by (simp add: loadOrGenerateKeys_def)
    with ok1 show ?thesis by blast
  next
    case (Inr k1)
    then have "generateKeys imp keygen priv pub msg w = (Inr k, w')"
      using load False g1 by (simp add: loadOrGenerateKeys_def)
    with ok show ?thesis by blast
  qed
  then obtain w0 where "generateKeys imp keygen priv pub msg w0 = (Inr k, w')"
    "key_file_ok w0 priv" "key_file_ok w0 pub" by blast
  from generateKeys_ok [OF this ne]
  show ?thesis by (cases k) (auto simp: hex_decode_encode)
qed

section \<open>Plugin\<close>

lemma store_envelope_paths [simp]:
  "paths (store_envelope d f env) = paths d" "modified (store_envelope d f env) = modified d"
  by (simp_all add: store_envelope_def)

lemma store_envelope_field_value [simp]: "field_value (store_envelope d a env) f = field_value d f"
  by (simp add: field_value_def)

lemma store_envelope_isModified [simp]: "isModified (store_envelope d a env) f = isModified d f"
  by (simp add: isModified_def)

lemma map_get_map_set: "map_get (map_set m a v) f = (if f = a then Some v else map_get m f)"
  by (simp add: map_get_def map_set_def split: option.splits)

lemma store_envelope_get:
  "map_get (encrypted (store_envelope d a env)) f =
     (if f = a then Some (encryptedData env) else map_get (encrypted d) f)"
  "map_get (encryptedCiphers (store_envelope d a env)) f =
     (if f = a then Some (ciphertext env) else map_get (encryptedCiphers d) f)"
  "map_get (encryptedIVs (store_envelope d a env)) f =
     (if f = a then Some (iv env) else map_get (encryptedIVs d) f)"
  by (simp_all add: store_envelope_def map_get_map_set)

lemma stored_parts_store:
  "stored_parts (store_envelope d a env) f =
     (if f = a then (Some (encryptedData env), Some (ciphertext env), Some (iv env))
      else stored_parts d f)"
  by (simp add: stored_parts_def store_envelope_get)

lemma preSave_frame:
  "preSave P fs w d = (r, w', d') \<Longrightarrow>
   f \<notin> set fs \<or> \<not> isModified d f \<or> \<not> has_value (field_value d f) \<Longrightarrow>
   stored_parts d' f = stored_parts d f"
proof (induction fs arbitrary: w d)
  case Nil
  then show ?case by simp
next
  case (Cons a fs)
  show ?case
  proof (cases "isModified d a \<and> has_value (field_value d a)")
    case False
    then have "preSave P fs w d = (r, w', d')"
      using Cons.prems(1) by (auto simp: has_value_def split: if_splits)
    moreover have "f \<notin> set fs \<or> \<not> isModified d f \<or> \<not> has_value (field_value d f)"
      using Cons.prems(2) by auto
    ultimately show ?thesis by (rule Cons.IH)
  next
    case True
    then have fa: "f \<noteq> a" using Cons.prems(2) by auto
    show ?thesis
    proof (cases "encryptData P w (field_value d a)")
      case (Pair res w1)
      show ?thesis
      proof (cases res)
        case (Inl e)
        then have "d' = d" using Cons.prems(1) True Pair by (simp add: has_value_def)
        then show ?thesis by simp
      next
        case (Inr env)
        then have run: "preSave P fs w1 (store_envelope d a env) = (r, w', d')"
          using Cons.prems(1) True Pair by (simp add: has_value_def)
        have "f \<notin> set fs \<or> \<not> isModified (store_envelope d a env) f
              \<or> \<not> has_value (field_value (store_envelope d a env) f)"
          using Cons.prems(2) by auto
        with run have "stored_parts d' f = stored_parts (store_envelope d a env) f"
          by (rule Cons.IH)
        then show ?thesis using fa by (simp add: stored_parts_store)
      qed
    qed
  qed
qed

lemma delete_key_same [simp]: "delete_key obj k k = None"
  by (simp add: delete_key_def)

lemma delete_key_None [simp]: "obj j = None \<Longrightarrow> delete_key obj k j = None"
  by (simp add: delete_key_def)

lemma decryptFields_loop_result:
  "decryptFields_loop P efs fs w d acc = (obj, w') \<Longrightarrow>
   dom obj = dom acc \<union> set fs \<and>
   (\<forall>f. f \<notin> set fs \<longrightarrow> obj f = acc f) \<and>
   (\<forall>f\<in>set fs. \<exists>w1. obj f =
      Some (case fst (decryptField P efs w1 d f) of Inr v \<Rightarrow> v | Inl e \<Rightarrow> field_value d f))"
proof (induction fs arbitrary: w acc)
  case Nil
  then show ?case by simp
next
  case (Cons a fs)
  obtain res w1 where step: "decryptField P efs w d a = (res, w1)"
    by (cases "decryptField P efs w d a")
  define x where "x = (case res of Inr v \<Rightarrow> v | Inl e \<Rightarrow> field_value d a)"
  have run: "decryptFields_loop P efs fs w1 d (acc(a \<mapsto> x)) = (obj, w')"
    using Cons.prems step by (cases res) (simp_all add: x_def)
  note IH = Cons.IH [OF run]
  have xa: "x = (case fst (decryptField P efs w d a) of Inr v \<Rightarrow> v | Inl e \<Rightarrow> field_value d a)"
    by (simp add: x_def step)
  have a: "\<exists>w1. obj a =
      Some (case fst (decryptField P efs w1 d a) of Inr v \<Rightarrow> v | Inl e \<Rightarrow> field_value d a)"
  proof (cases "a \<in> set fs")
    case True
    then show ?thesis using IH by blast
  next
    case False
    then have "obj a = Some x" using IH by simp
    then show ?thesis using xa by blast
  qed
  have "dom obj = dom acc \<union> set (a # fs)" using IH by auto
  moreover have "\<forall>f. f \<notin> set (a # fs) \<longrightarrow> obj f = acc f" using IH by auto
  moreover have "\<forall>f\<in>set (a # fs). \<exists>w1. obj f =
      Some (case fst (decryptField P efs w1 d f) of Inr v \<Rightarrow> v | Inl e \<Rightarrow> field_value d f)"
    using IH a by auto
  ultimately show ?case by blast
qed

section \<open>Runs on the reference platform\<close>

text \<open>The equations that unfold a run on the reference platform.\<close>

lemmas fs_eval =
  existsSync_def readFileSync_def writeFileSync_def draw_def
  KYBER_PRIVATE_KEY_PATH_def KYBER_PUBLIC_KEY_PATH_def
  DILITHIUM_PRIVATE_KEY_PATH_def DILITHIUM_PUBLIC_KEY_PATH_def

lemmas keys_eval =
  loadOrGenerateKyberKeys_def loadOrGenerateKyberKeys_try_def generateKyberKeys_def
  generateKyberKeys_try_def loadOrGenerateDilithiumKeys_def loadOrGenerateDilithiumKeys_try_def
  generateDilithiumKeys_def generateDilithiumKeys_try_def

lemmas codec_eval =
  encryptData_def encryptData_try_def decryptData_def decryptData_try_def dataString_def

lemmas ref_eval =
  ref_platform_def ref_kem_keygen_def ref_kem_encapsulate_def ref_kem_decapsulate_def
  ref_dsa_keygen_def ref_dsa_sign_def ref_dsa_verify_def
  ref_aes_encrypt_def ref_aes_decrypt_def ref_random_iv_def key_char_def mask_def hex_digit_def
  hex_value_def fresh_world_def

lemmas plugin_eval =
  isModified_def field_value_def store_envelope_def map_set_def map_get_def stored_parts_def
  has_value_def decryptField_def decryptFields_def userFields_def batchFields_def

lemma ref_parse_Pune: "ref_parse ''Pune'' = None"
  by code_simp

lemma saved_user_run: "fst (preSave ref_platform userFields fresh_world saved_user) = Inr ()"
  by (simp add: saved_user_def plugin_eval codec_eval keys_eval fs_eval ref_eval
      cong: prod.case_cong_weak)

lemma saved_user_location:
  "stored_parts (snd (snd (preSave ref_platform userFields fresh_world saved_user))) ''location'' =
     (Some ''Qtod'', Some ''02'', Some ''02020202020202020202020202020202'')"
  by (simp add: saved_user_def plugin_eval codec_eval keys_eval fs_eval ref_eval
      cong: prod.case_cong_weak)

lemma damaged_user_run:
  "(case fst (decryptFields ref_platform userFields fresh_world damaged_user) of
      Inl e \<Rightarrow> []
    | Inr obj \<Rightarrow> map obj userFields) =
   [Some (JStr ''Meher''), Some JUndefined, Some (JStr ''Pune''), Some JUndefined]"
  by (simp add: damaged_user_def plugin_eval codec_eval keys_eval fs_eval ref_eval ref_parse_Pune
      cong: prod.case_cong_weak)

section \<open>The pre-save hook\<close>

text \<open>
  Claim C7. Saving a record leaves the stored envelope parts of a declared field that
  is not modified exactly as they were: for such a field the entries of
  \<^verbatim>\<open>_encrypted\<close>, \<^verbatim>\<open>_encryptedCiphers\<close> and \<^verbatim>\<open>_encryptedIVs\<close> after the
  hook are the entries before it, whatever happens to the other fields and whether or
  not the hook ends with an error. No encryption is run for it.
\<close>

theorem preSave_keeps_unmodified_envelope:
  assumes "\<not> isModified d f" and "preSave P fs w d = (r, w', d')"
  shows "map_get (encrypted d') f = map_get (encrypted d) f \<and>
         map_get (encryptedCiphers d') f = map_get (encryptedCiphers d) f \<and>
         map_get (encryptedIVs d') f = map_get (encryptedIVs d) f"
proof -
  have "stored_parts d' f = stored_parts d f"
    using assms(2) by (rule preSave_frame) (simp add: assms(1))
  then show ?thesis by (simp add: stored_parts_def)
qed

text \<open>
  On the reference platform: the name of \<open>saved_user\<close> is not modified and keeps its
  three parts, while the modified location gets parts it did not have.
\<close>

theorem preSave_keeps_unmodified_envelope_witness:
  "\<not> isModified saved_user ''name'' \<and>
   map_get (encrypted (snd (snd (preSave ref_platform userFields fresh_world saved_user)))) ''name''
     = Some ''Ldids'' \<and>
   map_get (encryptedCiphers (snd (snd (preSave ref_platform userFields fresh_world saved_user)))) ''name''
     = Some ''02'' \<and>
   map_get (encryptedIVs (snd (snd (preSave ref_platform userFields fresh_world saved_user)))) ''name''
     = Some ''02020202020202020202020202020202'' \<and>
   stored_parts (snd (snd (preSave ref_platform userFields fresh_world saved_user))) ''location''
     \<noteq> stored_parts saved_user ''location''"
proof -
  have unmodified: "\<not> isModified saved_user ''name''"
    by (simp add: isModified_def saved_user_def)
  have run: "preSave ref_platform userFields fresh_world saved_user =
      (fst (preSave ref_platform userFields fresh_world saved_user),
       fst (snd (preSave ref_platform userFields fresh_world saved_user)),
       snd (snd (preSave ref_platform userFields fresh_world saved_user)))"
    by simp
  have before: "map_get (encrypted saved_user) ''name'' = Some ''Ldids''"
    "map_get (encryptedCiphers saved_user) ''name'' = Some ''02''"
    "map_get (encryptedIVs saved_user) ''name'' = Some ''02020202020202020202020202020202''"
    "stored_parts saved_user ''location'' = (None, None, None)"
    by (simp_all add: map_get_def stored_parts_def saved_user_def)
  from preSave_keeps_unmodified_envelope [OF unmodified run] before unmodified
  show ?thesis by (simp add: saved_user_location)
qed

lemma hook_world_store [simp]:
  "hook_world P pre w (store_envelope d a env) = hook_world P pre w d"
  by (simp add: hook_world_def cong: if_cong)

lemma hook_world_skip:
  "\<not> (isModified d a \<and> has_value (field_value d a)) \<Longrightarrow>
   hook_world P (a # pre) w d = hook_world P pre w d"
  by (auto simp: hook_world_def)

lemma hook_world_encrypt:
  "isModified d a \<and> has_value (field_value d a) \<Longrightarrow>
   hook_world P (a # pre) w d = hook_world P pre (snd (encryptData P w (field_value d a))) d"
  by (simp add: hook_world_def)

lemma preSave_prefix:
  "preSave P (pre @ rest) w d = (Inr u, w', d') \<Longrightarrow>
   \<exists>d1. preSave P rest (hook_world P pre w d) d1 = (Inr u, w', d') \<and>
        paths d1 = paths d \<and> modified d1 = modified d"
proof (induction pre arbitrary: w d)
  case Nil
  then show ?case by (intro exI [of _ d]) (simp add: hook_world_def)
next
  case (Cons a pre)
  show ?case
  proof (cases "isModified d a \<and> has_value (field_value d a)")
    case False
    then have "preSave P (pre @ rest) w d = (Inr u, w', d')"
      using Cons.prems by (auto simp: has_value_def split: if_splits)
    then have "\<exists>d1. preSave P rest (hook_world P pre w d) d1 = (Inr u, w', d') \<and>
        paths d1 = paths d \<and> modified d1 = modified d"
      by (rule Cons.IH)
    then show ?thesis by (simp add: hook_world_skip [OF False])
  next
    case True
    obtain res w1 where enc: "encryptData P w (field_value d a) = (res, w1)"
      by (cases "encryptData P w (field_value d a)")
    show ?thesis
    proof (cases res)
      case (Inl e)
      then show ?thesis using Cons.prems True enc by (simp add: has_value_def)
    next
      case (Inr env)
      then have "preSave P (pre @ rest) w1 (store_envelope d a env) = (Inr u, w', d')"
        using Cons.prems True enc by (simp add: has_value_def)
      then have "\<exists>d1. preSave P rest (hook_world P pre w1 (store_envelope d a env)) d1 =
            (Inr u, w', d') \<and>
          paths d1 = paths (store_envelope d a env) \<and>
          modified d1 = modified (store_envelope d a env)"
        by (rule Cons.IH)
      then show ?thesis by (simp add: hook_world_encrypt [OF True] enc)
    qed
  qed
qed

lemma same_paths_field_value: "paths d1 = paths d \<Longrightarrow> field_value d1 f = field_value d f"
  by (simp add: field_value_def)

lemma same_modified_isModified: "modified d1 = modified d \<Longrightarrow> isModified d1 f = isModified d f"
  by (simp add: isModified_def)

lemma blank_user_run: "fst (preSave ref_platform userFields fresh_world blank_user) = Inr ()"
  by (simp add: blank_user_def plugin_eval codec_eval keys_eval fs_eval ref_eval
      cong: prod.case_cong_weak)

text \<open>
  Claim C8, as stated, fails: a field whose value is empty is not skipped. The hook
  tests for undefined and null only, so a modified location that is the empty string
  is encrypted and its three parts are stored.
\<close>

theorem empty_value_skipped_counterexample:
  "isModified blank_user ''location'' \<and>
   field_value blank_user ''location'' = JStr [] \<and>
   stored_parts blank_user ''location'' = (None, None, None) \<and>
   fst (preSave ref_platform userFields fresh_world blank_user) = Inr () \<and>
   fst (encryptData ref_platform
          (hook_world ref_platform [''name'', ''email''] fresh_world blank_user) (JStr [])) =
     Inr \<lparr>ciphertext = ''04'', encryptedData = [], iv = ''04040404040404040404040404040404''\<rparr> \<and>
   stored_parts (snd (snd (preSave ref_platform userFields fresh_world blank_user))) ''location'' =
     (Some [], Some ''04'', Some ''04040404040404040404040404040404'')"
  by (simp add: blank_user_def hook_world_def plugin_eval codec_eval keys_eval fs_eval ref_eval
      cong: prod.case_cong_weak)

text \<open>
  Claim C8, amended. When the hook completes, a declared field has been encrypted and
  its three parts stored if and only if it was modified (or the record is new) and its
  value is neither undefined nor null; the empty string is encrypted like any other
  value. For such a field the three stored parts are those of the envelope that
  \<^verbatim>\<open>encryptData\<close> returned for the field's value in the surroundings the hook had
  reached at that field (for a field listed twice, at its last place); for every other
  declared field the stored parts are untouched.
\<close>

theorem preSave_encrypts_modified_valued:
  assumes "preSave P (pre @ f # post) w d = (Inr u, w', d')" and "f \<notin> set post"
  shows "if isModified d f \<and> field_value d f \<noteq> JUndefined \<and> field_value d f \<noteq> JNull
         then \<exists>env. fst (encryptData P (hook_world P pre w d) (field_value d f)) = Inr env \<and>
                map_get (encrypted d') f = Some (encryptedData env) \<and>
                map_get (encryptedCiphers d') f = Some (ciphertext env) \<and>
                map_get (encryptedIVs d') f = Some (iv env)
         else map_get (encrypted d') f = map_get (encrypted d) f \<and>
              map_get (encryptedCiphers d') f = map_get (encryptedCiphers d) f \<and>
              map_get (encryptedIVs d') f = map_get (encryptedIVs d) f"
proof (cases "isModified d f \<and> has_value (field_value d f)")
  case True
  then have cond: "isModified d f \<and> field_value d f \<noteq> JUndefined \<and> field_value d f \<noteq> JNull"
    by (simp add: has_value_def)
  from preSave_prefix [OF assms(1)] obtain d1 where
    reached: "preSave P (f # post) (hook_world P pre w d) d1 = (Inr u, w', d') \<and>
      paths d1 = paths d \<and> modified d1 = modified d"
    by (rule exE)
  have run: "preSave P (f # post) (hook_world P pre w d) d1 = (Inr u, w', d')"
    using reached by (rule conjunct1)
  have "paths d1 = paths d \<and> modified d1 = modified d"
    using reached by (rule conjunct2)
  then have same: "paths d1 = paths d" "modified d1 = modified d"
    by simp_all
  have qual: "isModified d1 f" "field_value d1 f = field_value d f"
    using cond by (simp_all add: same_paths_field_value [OF same(1)]
        same_modified_isModified [OF same(2)])
  obtain res w2 where enc: "encryptData P (hook_world P pre w d) (field_value d f) = (res, w2)"
    by (cases "encryptData P (hook_world P pre w d) (field_value d f)")
  have step: "preSave P (f # post) (hook_world P pre w d) d1 =
      (case res of Inl e \<Rightarrow> (Inl e, w2, d1)
       | Inr env \<Rightarrow> preSave P post w2 (store_envelope d1 f env))"
    using qual cond enc by simp
  have "\<exists>env. fst (encryptData P (hook_world P pre w d) (field_value d f)) = Inr env \<and>
          map_get (encrypted d') f = Some (encryptedData env) \<and>
          map_get (encryptedCiphers d') f = Some (ciphertext env) \<and>
          map_get (encryptedIVs d') f = Some (iv env)"
  proof (cases res)
    case (Inl e)
    with step run show ?thesis by simp
  next
    case (Inr env)
    with step run have rest: "preSave P post w2 (store_envelope d1 f env) = (Inr u, w', d')"
      by simp
    have "stored_parts d' f = stored_parts (store_envelope d1 f env) f"
      using rest by (rule preSave_frame) (simp add: assms(2))
    then have "stored_parts d' f = (Some (encryptedData env), Some (ciphertext env), Some (iv env))"
      by (simp add: stored_parts_store)
    then have "map_get (encrypted d') f = Some (encryptedData env) \<and>
        map_get (encryptedCiphers d') f = Some (ciphertext env) \<and>
        map_get (encryptedIVs d') f = Some (iv env)"
      by (simp add: stored_parts_def)
    moreover have "fst (encryptData P (hook_world P pre w d) (field_value d f)) = Inr env"
      using enc Inr by simp
    ultimately show ?thesis by (intro exI [of _ env]) simp
  qed
  with cond show ?thesis by simp
next
  case False
  then have ncond: "\<not> (isModified d f \<and> field_value d f \<noteq> JUndefined \<and> field_value d f \<noteq> JNull)"
    by (simp add: has_value_def)
  from False have "f \<notin> set (pre @ f # post) \<or> \<not> isModified d f \<or> \<not> has_value (field_value d f)"
    by blast
  with assms(1) have "stored_parts d' f = stored_parts d f"
    by (rule preSave_frame)
  then have "map_get (encrypted d') f = map_get (encrypted d) f \<and>
     map_get (encryptedCiphers d') f = map_get (encryptedCiphers d) f \<and>
     map_get (encryptedIVs d') f = map_get (encryptedIVs d) f"
    by (simp add: stored_parts_def)
  then show ?thesis by (simp only: if_not_P [OF ncond])
qed

text \<open>
  On the reference platform: the modified location \<^verbatim>\<open>Pune\<close> of \<open>saved_user\<close>
  is stored as the envelope that \<^verbatim>\<open>encryptData\<close> returns for it in the empty key
  directory the hook starts in; the modified but null company and the unmodified name
  are skipped.
\<close>

theorem preSave_encrypts_modified_valued_witness:
  "fst (encryptData ref_platform fresh_world (JStr ''Pune'')) =
     Inr \<lparr>ciphertext = ''02'', encryptedData = ''Qtod'', iv = ''02020202020202020202020202020202''\<rparr> \<and>
   stored_parts (snd (snd (preSave ref_platform userFields fresh_world saved_user))) ''location'' =
     (Some ''Qtod'', Some ''02'', Some ''02020202020202020202020202020202'') \<and>
   stored_parts (snd (snd (preSave ref_platform userFields fresh_world saved_user))) ''company'' =
     (None, None, None) \<and>
   stored_parts (snd (snd (preSave ref_platform userFields fresh_world saved_user))) ''name'' =
     (Some ''Ldids'', Some ''02'', Some ''02020202020202020202020202020202'')"
proof -
  have location: "preSave ref_platform ([''name'', ''email''] @ ''location'' # [''company''])
      fresh_world saved_user =
      (Inr (),
       fst (snd (preSave ref_platform userFields fresh_world saved_user)),
       snd (snd (preSave ref_platform userFields fresh_world saved_user)))"
    using saved_user_run by (simp add: userFields_def prod_eq_iff)
  have company: "preSave ref_platform ([''name'', ''email'', ''location''] @ ''company'' # [])
      fresh_world saved_user =
      (Inr (),
       fst (snd (preSave ref_platform userFields fresh_world saved_user)),
       snd (snd (preSave ref_platform userFields fresh_world saved_user)))"
    using saved_user_run by (simp add: userFields_def prod_eq_iff)
  have name: "preSave ref_platform ([] @ ''name'' # [''email'', ''location'', ''company''])
      fresh_world saved_user =
      (Inr (),
       fst (snd (preSave ref_platform userFields fresh_world saved_user)),
       snd (snd (preSave ref_platform userFields fresh_world saved_user)))"
    using saved_user_run by (simp add: userFields_def prod_eq_iff)
  have facts: "isModified saved_user ''location''" "field_value saved_user ''location'' = JStr ''Pune''"
    "isModified saved_user ''company''" "field_value saved_user ''company'' = JNull"
    "\<not> isModified saved_user ''name''"
    "stored_parts saved_user ''company'' = (None, None, None)"
    "stored_parts saved_user ''name'' =
       (Some ''Ldids'', Some ''02'', Some ''02020202020202020202020202020202'')"
    by (simp_all add: isModified_def field_value_def map_get_def stored_parts_def saved_user_def)
  have reached: "hook_world ref_platform [''name'', ''email''] fresh_world saved_user = fresh_world"
    by (simp add: hook_world_def isModified_def saved_user_def)
  have envelope: "fst (encryptData ref_platform fresh_world (JStr ''Pune'')) =
     Inr \<lparr>ciphertext = ''02'', encryptedData = ''Qtod'', iv = ''02020202020202020202020202020202''\<rparr>"
    by (simp add: codec_eval keys_eval fs_eval ref_eval cong: prod.case_cong_weak)
  from preSave_encrypts_modified_valued [OF location]
    preSave_encrypts_modified_valued [OF company]
    preSave_encrypts_modified_valued [OF name] facts reached envelope
  show ?thesis by (auto simp: stored_parts_def)
qed

section \<open>Safe projections\<close>

text \<open>
  Claim C10. The object that \<^verbatim>\<open>toSafeJSON\<close> returns has none of the keys
  \<^verbatim>\<open>_encrypted\<close>, \<^verbatim>\<open>_encryptedCiphers\<close>, \<^verbatim>\<open>_encryptedIVs\<close>, and for a user
  no \<^verbatim>\<open>password\<close> key, on the path where the decrypted fields are merged in and on
  the fallback path alike.
\<close>

theorem toSafeJSON_strips_envelope:
  "fst (userToSafeJSON P w d) ''_encrypted'' = None \<and>
   fst (userToSafeJSON P w d) ''_encryptedCiphers'' = None \<and>
   fst (userToSafeJSON P w d) ''_encryptedIVs'' = None \<and>
   fst (userToSafeJSON P w d) ''password'' = None \<and>
   fst (batchToSafeJSON P w d) ''_encrypted'' = None \<and>
   fst (batchToSafeJSON P w d) ''_encryptedCiphers'' = None \<and>
   fst (batchToSafeJSON P w d) ''_encryptedIVs'' = None"
  by (simp add: userToSafeJSON_def batchToSafeJSON_def Let_def split: prod.splits sum.splits)

section \<open>Verification\<close>

lemma verifySignature_steps:
  "fst (verifySignature P w pkg) =
     Inr (\<exists>d s u keys w1 m sg.
            get_property pkg ''data'' = Inr d \<and> get_property pkg ''signature'' = Inr s \<and>
            dsa_import P = Inr u \<and> loadOrGenerateDilithiumKeys P w = (Inr keys, w1) \<and>
            buffer_from P (dataString P d) Utf8 = Inr m \<and> buffer_from P s Hex = Inr sg \<and>
            dsa_verify P m sg (publicKey keys) = Inr True)"
proof (cases "get_property pkg ''data''")
  case (Inl e)
  then show ?thesis by (simp add: verifySignature_def verifySignature_try_def)
next
  case d: (Inr d)
  show ?thesis
  proof (cases "get_property pkg ''signature''")
    case (Inl e)
    with d show ?thesis by (simp add: verifySignature_def verifySignature_try_def)
  next
    case s: (Inr s)
    show ?thesis
    proof (cases "dsa_import P")
      case (Inl e)
      with d s show ?thesis by (simp add: verifySignature_def verifySignature_try_def)
    next
      case imp: (Inr u)
      obtain r w1 where load: "loadOrGenerateDilithiumKeys P w = (r, w1)"
        by (cases "loadOrGenerateDilithiumKeys P w")
      show ?thesis
      proof (cases r)
        case (Inl e)
        with d s imp load show ?thesis by (simp add: verifySignature_def verifySignature_try_def)
      next
        case keys: (Inr keys)
        show ?thesis
        proof (cases "buffer_from P (dataString P d) Utf8")
          case (Inl e)
          with d s imp load keys show ?thesis
            by (simp add: verifySignature_def verifySignature_try_def)
        next
          case m: (Inr m)
          show ?thesis
          proof (cases "buffer_from P s Hex")
            case (Inl e)
            with d s imp load keys m show ?thesis
              by (simp add: verifySignature_def verifySignature_try_def)
          next
            case sg: (Inr sg)
            show ?thesis
            proof (cases "dsa_verify P m sg (publicKey keys)")
              case (Inl e)
              with d s imp load keys m sg show ?thesis
                by (simp add: verifySignature_def verifySignature_try_def)
            next
              case (Inr b)
              with d s imp load keys m sg show ?thesis
                by (simp add: verifySignature_def verifySignature_try_def)
            qed
          qed
        qed
      qed
    qed
  qed
qed

text \<open>
  Claim C4. \<^verbatim>\<open>verifySignature\<close> always returns a boolean and never throws. It returns
  true exactly when every step succeeded (the package could be destructured, the import
  and the key loading succeeded, both buffers could be built) and the verification
  primitive returned true on the bytes of the canonical text, the decoded signature and
  the loaded public key, in the order the source passes them; in every other case it
  returns false. In particular it returns false for a package that is undefined or
  null, that has no data or no signature, or whose signature is null, a number or a
  boolean, and whenever the primitive returns false or throws.
\<close>

theorem verifySignature_false_on_failure:
  "(\<exists>b. fst (verifySignature P w pkg) = Inr b) \<and>
   ((fst (verifySignature P w pkg) = Inr True) =
      (\<exists>d s u keys w1 m sg.
         get_property pkg ''data'' = Inr d \<and> get_property pkg ''signature'' = Inr s \<and>
         dsa_import P = Inr u \<and> loadOrGenerateDilithiumKeys P w = (Inr keys, w1) \<and>
         buffer_from P (dataString P d) Utf8 = Inr m \<and> buffer_from P s Hex = Inr sg \<and>
         dsa_verify P m sg (publicKey keys) = Inr True)) \<and>
   ((fst (verifySignature P w pkg) = Inr False) = (fst (verifySignature P w pkg) \<noteq> Inr True)) \<and>
   fst (verifySignature P w JUndefined) = Inr False \<and>
   fst (verifySignature P w JNull) = Inr False \<and>
   fst (verifySignature P w (JObj [(''signature'', s0)])) = Inr False \<and>
   fst (verifySignature P w (JObj [(''data'', d0)])) = Inr False \<and>
   fst (verifySignature P w (JObj [(''data'', d0), (''signature'', JNull)])) = Inr False \<and>
   fst (verifySignature P w (JObj [(''data'', d0), (''signature'', JNum n)])) = Inr False \<and>
   fst (verifySignature P w (JObj [(''data'', d0), (''signature'', JBool b0)])) = Inr False"
proof -
  have total: "\<exists>b. fst (verifySignature P w pkg) = Inr b"
    by (subst verifySignature_steps) (rule exI, rule refl)
  have accepted: "(fst (verifySignature P w pkg) = Inr True) =
      (\<exists>d s u keys w1 m sg.
         get_property pkg ''data'' = Inr d \<and> get_property pkg ''signature'' = Inr s \<and>
         dsa_import P = Inr u \<and> loadOrGenerateDilithiumKeys P w = (Inr keys, w1) \<and>
         buffer_from P (dataString P d) Utf8 = Inr m \<and> buffer_from P s Hex = Inr sg \<and>
         dsa_verify P m sg (publicKey keys) = Inr True)"
    by (subst verifySignature_steps) simp
  have rejected: "(fst (verifySignature P w pkg) = Inr False) =
      (fst (verifySignature P w pkg) \<noteq> Inr True)"
    using total by auto
  have malformed:
    "fst (verifySignature P w JUndefined) = Inr False"
    "fst (verifySignature P w JNull) = Inr False"
    "fst (verifySignature P w (JObj [(''signature'', s0)])) = Inr False"
    "fst (verifySignature P w (JObj [(''data'', d0)])) = Inr False"
    "fst (verifySignature P w (JObj [(''data'', d0), (''signature'', JNull)])) = Inr False"
    "fst (verifySignature P w (JObj [(''data'', d0), (''signature'', JNum n)])) = Inr False"
    "fst (verifySignature P w (JObj [(''data'', d0), (''signature'', JBool b0)])) = Inr False"
    by (simp_all add: verifySignature_steps dataString_def)
  from total accepted rejected malformed show ?thesis by (intro conjI)
qed

section \<open>Decrypting the fields of a record\<close>

lemma loop_world_step:
  "loop_world P efs (a # pre) w d = loop_world P efs pre (snd (decryptField P efs w d a)) d"
  by (simp add: loop_world_def)

lemma decryptFields_loop_step:
  "decryptFields_loop P efs (a # fs) w d acc =
     decryptFields_loop P efs fs (snd (decryptField P efs w d a)) d
       (acc(a \<mapsto> (case fst (decryptField P efs w d a) of
                       Inr v \<Rightarrow> v
                     | Inl e \<Rightarrow> field_value d a)))"
proof -
  obtain res w1 where step: "decryptField P efs w d a = (res, w1)"
    by (cases "decryptField P efs w d a")
  show ?thesis by (cases res) (simp_all add: step)
qed

lemma decryptFields_loop_prefix:
  "decryptFields_loop P efs (pre @ rest) w d acc =
     decryptFields_loop P efs rest (loop_world P efs pre w d) d
       (fst (decryptFields_loop P efs pre w d acc))"
proof (induction pre arbitrary: w acc)
  case Nil
  show ?case by (simp add: loop_world_def)
next
  case (Cons a pre)
  have "decryptFields_loop P efs ((a # pre) @ rest) w d acc =
      decryptFields_loop P efs (a # (pre @ rest)) w d acc"
    by simp
  then show ?case
    by (simp only: decryptFields_loop_step Cons.IH loop_world_step)
qed

lemma decryptFields_loop_world:
  "snd (decryptFields_loop P efs fs w d acc) = loop_world P efs fs w d"
  using decryptFields_loop_prefix [of P efs fs "[]" w d acc] by (simp add: prod_eq_iff)

text \<open>
  Claim C9. \<^verbatim>\<open>decryptFields\<close> never throws. It returns an object with exactly the
  declared fields as keys. Each field holds what \<^verbatim>\<open>decryptField\<close> returned for it
  in the surroundings the loop had reached at that field (for a field listed twice, at
  its last place), or, when \<^verbatim>\<open>decryptField\<close> threw there, the value stored in the
  record under that field. So a failure on one field neither stops the loop nor
  changes what the other fields get.
\<close>

theorem decryptFields_falls_back_per_field:
  "\<exists>obj. decryptFields P fs w d = (Inr obj, loop_world P fs fs w d) \<and> dom obj = set fs \<and>
     (\<forall>pre f post. fs = pre @ f # post \<longrightarrow> f \<notin> set post \<longrightarrow>
        obj f =
          Some (case fst (decryptField P fs (loop_world P fs pre w d) d f) of
                  Inr v \<Rightarrow> v
                | Inl e \<Rightarrow> field_value d f))"
proof -
  obtain obj w' where loop: "decryptFields_loop P fs fs w d Map.empty = (obj, w')"
    by (cases "decryptFields_loop P fs fs w d Map.empty")
  have w': "w' = loop_world P fs fs w d"
    using decryptFields_loop_world [of P fs fs w d Map.empty] loop by simp
  have res: "decryptFields P fs w d = (Inr obj, loop_world P fs fs w d)"
    by (simp add: decryptFields_def loop w')
  have dom: "dom obj = set fs"
    using decryptFields_loop_result [OF loop] by simp
  have each: "obj f =
      Some (case fst (decryptField P fs (loop_world P fs pre w d) d f) of
              Inr v \<Rightarrow> v
            | Inl e \<Rightarrow> field_value d f)"
    if split: "fs = pre @ f # post" and last: "f \<notin> set post" for pre f post
  proof -
    define acc where "acc = fst (decryptFields_loop P fs pre w d Map.empty)"
    define wp where "wp = loop_world P fs pre w d"
    obtain r w1 where step: "decryptField P fs wp d f = (r, w1)"
      by (cases "decryptField P fs wp d f")
    define x where "x = (case r of Inr v \<Rightarrow> v | Inl e \<Rightarrow> field_value d f)"
    have "decryptFields_loop P fs (pre @ f # post) w d Map.empty =
        decryptFields_loop P fs (f # post) wp d acc"
      by (simp only: decryptFields_loop_prefix acc_def wp_def)
    also have "\<dots> = decryptFields_loop P fs post w1 d (acc(f \<mapsto> x))"
      by (simp only: decryptFields_loop_step step x_def fst_conv snd_conv)
    finally have "decryptFields_loop P fs post w1 d (acc(f \<mapsto> x)) = (obj, w')"
      using loop split by simp
    from decryptFields_loop_result [OF this] last have "obj f = Some x"
      by simp
    then show ?thesis by (simp add: x_def wp_def [symmetric] step)
  qed
  from res dom each show ?thesis by blast
qed

text \<open>
  On the reference platform, from an empty key directory: the name of
  \<open>damaged_user\<close> cannot be decrypted and comes back as stored; the loop goes on,
  and the location, reached in the key directory that the failed attempt left behind,
  is decrypted to \<^verbatim>\<open>Pune\<close>.
\<close>

theorem decryptFields_falls_back_per_field_witness:
  "\<exists>obj. fst (decryptFields ref_platform userFields fresh_world damaged_user) = Inr obj \<and>
     dom obj = {''name'', ''email'', ''location'', ''company''} \<and>
     obj ''name'' = Some (JStr ''Meher'') \<and>
     obj ''location'' = Some (JStr ''Pune'')"
proof -
  have first: "userFields = [] @ ''name'' # [''email'', ''location'', ''company'']"
    "''name'' \<notin> set [''email'', ''location'', ''company'']"
    by (simp_all add: userFields_def)
  have third: "userFields = [''name'', ''email''] @ ''location'' # [''company'']"
    "''location'' \<notin> set [''company'']"
    by (simp_all add: userFields_def)
  have name: "(case fst (decryptField ref_platform userFields
        (loop_world ref_platform userFields [] fresh_world damaged_user) damaged_user ''name'') of
      Inr v \<Rightarrow> v | Inl e \<Rightarrow> field_value damaged_user ''name'') = JStr ''Meher''"
    by (simp add: loop_world_def damaged_user_def plugin_eval codec_eval keys_eval fs_eval ref_eval
        cong: prod.case_cong_weak)
  have location: "(case fst (decryptField ref_platform userFields
        (loop_world ref_platform userFields [''name'', ''email''] fresh_world damaged_user)
        damaged_user ''location'') of
      Inr v \<Rightarrow> v | Inl e \<Rightarrow> field_value damaged_user ''location'') = JStr ''Pune''"
    by (simp add: loop_world_def damaged_user_def plugin_eval codec_eval keys_eval fs_eval ref_eval
        ref_parse_Pune cong: prod.case_cong_weak)
  from decryptFields_falls_back_per_field [of ref_platform userFields fresh_world damaged_user]
  obtain obj where
    found: "decryptFields ref_platform userFields fresh_world damaged_user =
        (Inr obj, loop_world ref_platform userFields userFields fresh_world damaged_user) \<and>
      dom obj = set userFields \<and>
      (\<forall>pre f post. userFields = pre @ f # post \<longrightarrow> f \<notin> set post \<longrightarrow>
        obj f =
          Some (case fst (decryptField ref_platform userFields
                  (loop_world ref_platform userFields pre fresh_world damaged_user)
                  damaged_user f) of
                  Inr v \<Rightarrow> v
                | Inl e \<Rightarrow> field_value damaged_user f))"
    by (rule exE)
  then have res: "fst (decryptFields ref_platform userFields fresh_world damaged_user) = Inr obj"
    by simp
  have keys: "dom obj = {''name'', ''email'', ''location'', ''company''}"
    using found by (simp add: userFields_def)
  have each: "\<And>pre f post. userFields = pre @ f # post \<Longrightarrow> f \<notin> set post \<Longrightarrow>
        obj f =
          Some (case fst (decryptField ref_platform userFields
                  (loop_world ref_platform userFields pre fresh_world damaged_user)
                  damaged_user f) of
                  Inr v \<Rightarrow> v
                | Inl e \<Rightarrow> field_value damaged_user f)"
    using found by (elim conjE allE impE) assumption+
  have "obj ''name'' = Some (JStr ''Meher'')"
    using each [OF first] by (simp only: name)
  moreover have "obj ''location'' = Some (JStr ''Pune'')"
    using each [OF third] by (simp only: location)
  ultimately show ?thesis using res keys by (intro exI [of _ obj]) simp
qed

section \<open>Key store: stability\<close>

lemma loadOrGenerateKeys_stable:
  assumes load: "loadOrGenerateKeys imp keygen priv pub msg w = (Inr k, w')"
    and ok: "key_file_ok w priv" "key_file_ok w pub"
    and ne: "priv \<noteq> pub"
  shows "loadOrGenerateKeys imp keygen priv pub msg (w'\<lparr>entropy := n\<rparr>) = (Inr k, w'\<lparr>entropy := n\<rparr>)"
proof -
  from loadOrGenerateKeys_result [OF load ok ne]
  obtain s p where "readFileSync w' priv = Inr s" "readFileSync w' pub = Inr p"
    "k = \<lparr>publicKey = hex_decode p, privateKey = hex_decode s\<rparr>"
    by blast
  then show ?thesis
    using loadOrGenerateKeys_read [of "w'\<lparr>entropy := n\<rparr>" priv s pub p imp keygen msg] by simp
qed

lemma loadOrGenerateKeys_paired:
  assumes load: "loadOrGenerateKeys imp keygen priv pub msg w = (Inr k, w')"
    and ok: "store_ok keygen priv pub w"
    and ne: "priv \<noteq> pub"
  shows "\<exists>r. keygen r = Inr (publicKey k, privateKey k)"
proof -
  have fok: "key_file_ok w priv" "key_file_ok w pub"
    using ok by (simp_all add: store_ok_def)
  from loadOrGenerateKeys_result [OF load fok ne]
  obtain s p where r: "readFileSync w' priv = Inr s" "readFileSync w' pub = Inr p" and
    k: "k = \<lparr>publicKey = hex_decode p, privateKey = hex_decode s\<rparr>" and
    alt: "(existsSync w priv \<and> existsSync w pub \<and> w' = w) \<or>
          (\<exists>r. keygen r = Inr (hex_decode p, hex_decode s))"
    by blast
  from alt show ?thesis
  proof
    assume "existsSync w priv \<and> existsSync w pub \<and> w' = w"
    then have "readFileSync w priv = Inr s" "readFileSync w pub = Inr p"
      using r by simp_all
    then have "\<exists>r. keygen r = Inr (hex_decode p, hex_decode s)"
      using ok by (simp add: store_ok_def)
    then show ?thesis by (simp add: k)
  next
    assume "\<exists>r. keygen r = Inr (hex_decode p, hex_decode s)"
    then show ?thesis by (simp add: k)
  qed
qed

lemma world_entropy_same [simp]: "w\<lparr>entropy := entropy w\<rparr> = w"
  by simp

section \<open>Loading keys twice\<close>

text \<open>
  Claim C6. Where no key file exists without being readable, a call of
  \<^verbatim>\<open>loadOrGenerateKyberKeys\<close> that returns a pair leaves the key directory in a
  state from which the next call returns the same pair, byte for byte, and changes
  nothing: whether the first call read the files or generated the pair and wrote it,
  the second call reads it back through the hex decoding.
\<close>

theorem key_loading_idempotent:
  assumes "key_file_ok w KYBER_PRIVATE_KEY_PATH" and "key_file_ok w KYBER_PUBLIC_KEY_PATH"
    and "fst (loadOrGenerateKyberKeys P w) = Inr k"
  shows "loadOrGenerateKyberKeys P (snd (loadOrGenerateKyberKeys P w)) =
           (Inr k, snd (loadOrGenerateKyberKeys P w))"
proof -
  define w' where "w' = snd (loadOrGenerateKyberKeys P w)"
  have "loadOrGenerateKyberKeys P w = (Inr k, w')"
    using assms(3) by (simp add: w'_def prod_eq_iff)
  then have "loadOrGenerateKeys (kem_import P) (kem_keygen P) KYBER_PRIVATE_KEY_PATH
      KYBER_PUBLIC_KEY_PATH ''Failed to generate Kyber keys'' w = (Inr k, w')"
    by (simp add: loadOrGenerateKyberKeys_generic)
  from loadOrGenerateKeys_stable [OF this assms(1,2) kyber_paths_distinct, of "entropy w'"]
  have "loadOrGenerateKyberKeys P w' = (Inr k, w')"
    by (simp add: loadOrGenerateKyberKeys_generic)
  then show ?thesis
    by (simp only: w'_def)
qed

text \<open>
  On the reference platform, from an empty key directory: the first call generates and
  writes the pair, the second call returns it again.
\<close>

theorem key_loading_idempotent_witness:
  "fst (loadOrGenerateKyberKeys ref_platform fresh_world) = Inr \<lparr>publicKey = [1], privateKey = [0]\<rparr> \<and>
   fst (loadOrGenerateKyberKeys ref_platform (snd (loadOrGenerateKyberKeys ref_platform fresh_world)))
     = Inr \<lparr>publicKey = [1], privateKey = [0]\<rparr> \<and>
   readFileSync (snd (loadOrGenerateKyberKeys ref_platform fresh_world)) KYBER_PRIVATE_KEY_PATH
     = Inr ''00'' \<and>
   readFileSync (snd (loadOrGenerateKyberKeys ref_platform fresh_world)) KYBER_PUBLIC_KEY_PATH
     = Inr ''01''"
proof -
  have ok: "key_file_ok fresh_world KYBER_PRIVATE_KEY_PATH"
    "key_file_ok fresh_world KYBER_PUBLIC_KEY_PATH"
    by (simp_all add: key_file_ok_def fresh_world_def)
  have first: "fst (loadOrGenerateKyberKeys ref_platform fresh_world) =
      Inr \<lparr>publicKey = [1], privateKey = [0]\<rparr>"
    by (simp add: keys_eval fs_eval ref_eval cong: prod.case_cong_weak)
  have files: "readFileSync (snd (loadOrGenerateKyberKeys ref_platform fresh_world))
      KYBER_PRIVATE_KEY_PATH = Inr ''00''"
    "readFileSync (snd (loadOrGenerateKyberKeys ref_platform fresh_world))
      KYBER_PUBLIC_KEY_PATH = Inr ''01''"
    by (simp_all add: keys_eval fs_eval ref_eval cong: prod.case_cong_weak)
  from key_loading_idempotent [OF ok first] first files
  show ?thesis by simp
qed

section \<open>A key file that cannot be read\<close>

text \<open>
  Claim C3, as stated, fails: with both Kyber key files present and the private one
  unreadable, the loader does not pass the read error on. It generates a fresh pair,
  overwrites the files and returns the new pair.
\<close>

theorem read_failure_propagates_counterexample:
  "existsSync locked_world KYBER_PRIVATE_KEY_PATH \<and>
   existsSync locked_world KYBER_PUBLIC_KEY_PATH \<and>
   readFileSync locked_world KYBER_PRIVATE_KEY_PATH = Inl (Error ''EACCES'') \<and>
   readFileSync locked_world KYBER_PUBLIC_KEY_PATH = Inr ''01'' \<and>
   fst (loadOrGenerateKyberKeys ref_platform locked_world)
     = Inr \<lparr>publicKey = [8], privateKey = [7]\<rparr> \<and>
   readFileSync (snd (loadOrGenerateKyberKeys ref_platform locked_world)) KYBER_PUBLIC_KEY_PATH
     = Inr ''08''"
  by (simp add: locked_world_def keys_eval fs_eval ref_eval cong: prod.case_cong_weak)

text \<open>
  Claim C3, amended. When both key files of a scheme exist and reading one of them
  fails, the loader catches the failure and runs the key generation: its outcome is
  that of \<^verbatim>\<open>generateKyberKeys\<close> (\<^verbatim>\<open>generateDilithiumKeys\<close>) in the same
  surroundings, a fresh pair written to the two files. The only error that can reach
  the caller is the generation's own \<^verbatim>\<open>Failed to generate ... keys\<close>.
\<close>

theorem read_failure_regenerates:
  "(existsSync w KYBER_PRIVATE_KEY_PATH \<and> existsSync w KYBER_PUBLIC_KEY_PATH \<and>
    (isl (readFileSync w KYBER_PRIVATE_KEY_PATH) \<or> isl (readFileSync w KYBER_PUBLIC_KEY_PATH)) \<longrightarrow>
      loadOrGenerateKyberKeys P w = generateKyberKeys P w \<and>
      (isl (fst (generateKyberKeys P w)) \<longrightarrow>
         fst (generateKyberKeys P w) = Inl (Error ''Failed to generate Kyber keys''))) \<and>
   (existsSync w DILITHIUM_PRIVATE_KEY_PATH \<and> existsSync w DILITHIUM_PUBLIC_KEY_PATH \<and>
    (isl (readFileSync w DILITHIUM_PRIVATE_KEY_PATH) \<or>
     isl (readFileSync w DILITHIUM_PUBLIC_KEY_PATH)) \<longrightarrow>
      loadOrGenerateDilithiumKeys P w = generateDilithiumKeys P w \<and>
      (isl (fst (generateDilithiumKeys P w)) \<longrightarrow>
         fst (generateDilithiumKeys P w) = Inl (Error ''Failed to generate Dilithium keys'')))"
proof -
  have "isl (fst (generateKyberKeys P w)) \<longrightarrow>
      fst (generateKyberKeys P w) = Inl (Error ''Failed to generate Kyber keys'')"
    by (cases "generateKyberKeys_try P w")
      (auto simp: generateKyberKeys_def split: sum.splits)
  moreover have "isl (fst (generateDilithiumKeys P w)) \<longrightarrow>
      fst (generateDilithiumKeys P w) = Inl (Error ''Failed to generate Dilithium keys'')"
    by (cases "generateDilithiumKeys_try P w")
      (auto simp: generateDilithiumKeys_def split: sum.splits)
  moreover have "existsSync w KYBER_PRIVATE_KEY_PATH \<and> existsSync w KYBER_PUBLIC_KEY_PATH \<and>
      (isl (readFileSync w KYBER_PRIVATE_KEY_PATH) \<or> isl (readFileSync w KYBER_PUBLIC_KEY_PATH)) \<longrightarrow>
      loadOrGenerateKyberKeys P w = generateKyberKeys P w"
    by (auto simp: loadOrGenerateKyberKeys_def loadOrGenerateKyberKeys_try_def split: sum.splits)
  moreover have "existsSync w DILITHIUM_PRIVATE_KEY_PATH \<and>
      existsSync w DILITHIUM_PUBLIC_KEY_PATH \<and>
      (isl (readFileSync w DILITHIUM_PRIVATE_KEY_PATH) \<or>
       isl (readFileSync w DILITHIUM_PUBLIC_KEY_PATH)) \<longrightarrow>
      loadOrGenerateDilithiumKeys P w = generateDilithiumKeys P w"
    by (auto simp: loadOrGenerateDilithiumKeys_def loadOrGenerateDilithiumKeys_try_def
        split: sum.splits)
  ultimately show ?thesis by blast
qed

text \<open>
  On the reference platform, in a key directory whose private key files are
  write-only: both loaders return what their generators return, a fresh pair.
\<close>

theorem read_failure_regenerates_witness:
  "loadOrGenerateKyberKeys ref_platform locked_world = generateKyberKeys ref_platform locked_world \<and>
   fst (generateKyberKeys ref_platform locked_world) = Inr \<lparr>publicKey = [8], privateKey = [7]\<rparr> \<and>
   loadOrGenerateDilithiumKeys ref_platform locked_world =
     generateDilithiumKeys ref_platform locked_world \<and>
   fst (generateDilithiumKeys ref_platform locked_world) = Inr \<lparr>publicKey = [7], privateKey = [7]\<rparr>"
proof -
  have kyber: "existsSync locked_world KYBER_PRIVATE_KEY_PATH"
    "existsSync locked_world KYBER_PUBLIC_KEY_PATH"
    "isl (readFileSync locked_world KYBER_PRIVATE_KEY_PATH)"
    by (simp_all add: locked_world_def fs_eval)
  have dilithium: "existsSync locked_world DILITHIUM_PRIVATE_KEY_PATH"
    "existsSync locked_world DILITHIUM_PUBLIC_KEY_PATH"
    "isl (readFileSync locked_world DILITHIUM_PRIVATE_KEY_PATH)"
    by (simp_all add: locked_world_def fs_eval)
  have fresh: "fst (generateKyberKeys ref_platform locked_world) =
      Inr \<lparr>publicKey = [8], privateKey = [7]\<rparr>"
    "fst (generateDilithiumKeys ref_platform locked_world) =
      Inr \<lparr>publicKey = [7], privateKey = [7]\<rparr>"
    by (simp_all add: locked_world_def keys_eval fs_eval ref_eval cong: prod.case_cong_weak)
  from read_failure_regenerates [of locked_world ref_platform] kyber dilithium fresh
  show ?thesis by simp
qed

section \<open>Encrypting and decrypting\<close>

lemma mask_mask: "mask k (mask k c) = c"
  by (cases c) (auto simp: mask_def)

lemma ref_sym_correct: "sym_correct ref_platform"
  by (simp add: sym_correct_def ref_platform_def ref_aes_encrypt_def ref_aes_decrypt_def
      comp_def mask_mask)

lemma ref_kem_correct: "kem_correct ref_platform"
  by (auto simp: kem_correct_def ref_platform_def ref_kem_keygen_def ref_kem_encapsulate_def
      ref_kem_decapsulate_def)

lemma fresh_store_ok: "kyber_store_ok P fresh_world"
  by (simp add: kyber_store_ok_def store_ok_def key_file_ok_def readFileSync_def fresh_world_def)

lemma encryptData_try_success:
  assumes "encryptData_try P w v = (Inr env, w')"
  obtains u keys w1 ct ss where
    "kem_import P = Inr u"
    "loadOrGenerateKyberKeys P w = (Inr keys, w1)"
    "kem_encapsulate P (entropy w1) (publicKey keys) = Inr (ct, ss)"
    "aes_encrypt P (dataString P v) (hex_encode ss) (iv env) = Inr (encryptedData env)"
    "ciphertext env = hex_encode ct"
    "w' = w1\<lparr>entropy := Suc (Suc (entropy w1))\<rparr>"
proof (cases "kem_import P")
  case (Inl e)
  with assms show ?thesis by (simp add: encryptData_try_def)
next
  case imp: (Inr u)
  obtain r w1 where load: "loadOrGenerateKyberKeys P w = (r, w1)"
    by (cases "loadOrGenerateKyberKeys P w")
  show ?thesis
  proof (cases r)
    case (Inl e)
    with assms imp load show ?thesis by (simp add: encryptData_try_def)
  next
    case keys: (Inr keys)
    show ?thesis
    proof (cases "kem_encapsulate P (entropy w1) (publicKey keys)")
      case (Inl e)
      with assms imp load keys show ?thesis by (simp add: encryptData_try_def draw_def)
    next
      case (Inr cs)
      obtain ct ss where cs: "cs = (ct, ss)" by (cases cs)
      show ?thesis
      proof (cases "aes_encrypt P (dataString P v) (hex_encode ss) (random_iv P (Suc (entropy w1)))")
        case (Inl e)
        with assms imp load keys Inr cs show ?thesis
          by (simp add: encryptData_try_def draw_def)
      next
        case enc: (Inr encrypted)
        with assms imp load keys Inr cs
        have env: "env = \<lparr>ciphertext = hex_encode ct, encryptedData = encrypted,
                          iv = random_iv P (Suc (entropy w1))\<rparr>"
          and w': "w' = w1\<lparr>entropy := Suc (Suc (entropy w1))\<rparr>"
          by (simp_all add: encryptData_try_def draw_def)
        show ?thesis
        proof (rule that)
          show "kem_import P = Inr u" by (rule imp)
          show "loadOrGenerateKyberKeys P w = (Inr keys, w1)" using load keys by simp
          show "kem_encapsulate P (entropy w1) (publicKey keys) = Inr (ct, ss)"
            using Inr cs by simp
          show "aes_encrypt P (dataString P v) (hex_encode ss) (iv env) = Inr (encryptedData env)"
            using enc env by simp
          show "ciphertext env = hex_encode ct" using env by simp
          show "w' = w1\<lparr>entropy := Suc (Suc (entropy w1))\<rparr>" by (rule w')
        qed
      qed
    qed
  qed
qed

lemma encryptData_success:
  "fst (encryptData P w v) = Inr env \<Longrightarrow>
   encryptData_try P w v = (Inr env, snd (encryptData P w v))"
  by (cases "encryptData_try P w v") (auto simp: encryptData_def split: sum.splits)

lemma ref_parse_123: "ref_parse ''123'' = Some (JNum 123)"
  by code_simp

lemma ref_parse_Millet: "ref_parse ''Millet'' = None"
  by code_simp

lemma ref_parse_Oknngv: "ref_parse ''Oknngv'' = None"
  by code_simp

lemma ref_parse_crop_record: "ref_parse (ref_stringify crop_record) = Some crop_record"
  by code_simp

text \<open>
  Claim C1, as stated, fails: the string \<^verbatim>\<open>123\<close> is encrypted as it is, and after
  decryption \<^verbatim>\<open>JSON.parse\<close> accepts the recovered text, so the caller gets the
  number 123 and not the string.
\<close>

theorem decrypt_encrypt_returns_value_counterexample:
  "fst (encryptData ref_platform fresh_world (JStr ''123'')) =
     Inr \<lparr>ciphertext = ''02'', encryptedData = ''032'', iv = ''02020202020202020202020202020202''\<rparr> \<and>
   fst (decryptData ref_platform (snd (encryptData ref_platform fresh_world (JStr ''123'')))
          \<lparr>ciphertext = ''02'', encryptedData = ''032'', iv = ''02020202020202020202020202020202''\<rparr>)
     = Inr (JNum 123) \<and>
   JNum 123 \<noteq> JStr ''123''"
  by (simp add: codec_eval keys_eval fs_eval ref_eval ref_parse_123 cong: prod.case_cong_weak)

text \<open>
  Claim C1, amended. With a correct KEM and a correct cipher, and a key store in order,
  decrypting the envelope that encrypting v produced returns what \<^verbatim>\<open>JSON.parse\<close>
  makes of the canonical text of v, or that text itself when it does not parse. So a
  structured v comes back as v when its JSON text parses back to v, and a string v
  comes back as v when it is not itself a JSON text; a string that is a JSON text comes
  back as the value it denotes.
\<close>

theorem decrypt_encrypt_parses_text:
  assumes kem: "kem_correct P" and sym: "sym_correct P"
    and store: "kyber_store_ok P w"
    and enc: "fst (encryptData P w v) = Inr env"
    and ds: "dataString P v = JStr txt"
  shows "fst (decryptData P (snd (encryptData P w v)) env) =
           Inr (case json_parse P txt of Some x \<Rightarrow> x | None \<Rightarrow> JStr txt)"
proof -
  define w' where "w' = snd (encryptData P w v)"
  have "encryptData_try P w v = (Inr env, w')"
    using enc by (simp add: w'_def encryptData_success)
  then obtain u keys w1 ct ss where
    imp: "kem_import P = Inr u" and
    load: "loadOrGenerateKyberKeys P w = (Inr keys, w1)" and
    encaps: "kem_encapsulate P (entropy w1) (publicKey keys) = Inr (ct, ss)" and
    aes: "aes_encrypt P (dataString P v) (hex_encode ss) (iv env) = Inr (encryptedData env)" and
    ct: "ciphertext env = hex_encode ct" and
    w': "w' = w1\<lparr>entropy := Suc (Suc (entropy w1))\<rparr>"
    by (rule encryptData_try_success)
  have gen: "loadOrGenerateKeys (kem_import P) (kem_keygen P) KYBER_PRIVATE_KEY_PATH
      KYBER_PUBLIC_KEY_PATH ''Failed to generate Kyber keys'' w = (Inr keys, w1)"
    using load by (simp add: loadOrGenerateKyberKeys_generic)
  have fok: "key_file_ok w KYBER_PRIVATE_KEY_PATH" "key_file_ok w KYBER_PUBLIC_KEY_PATH"
    using store by (simp_all add: kyber_store_ok_def store_ok_def)
  have again: "loadOrGenerateKyberKeys P w' = (Inr keys, w')"
    using loadOrGenerateKeys_stable [OF gen fok kyber_paths_distinct]
    by (simp add: loadOrGenerateKyberKeys_generic w')
  obtain r where pair: "kem_keygen P r = Inr (publicKey keys, privateKey keys)"
    using loadOrGenerateKeys_paired [OF gen _ kyber_paths_distinct] store
    by (auto simp: kyber_store_ok_def)
  have decaps: "kem_decapsulate P (hex_decode (ciphertext env)) (privateKey keys) = Inr ss"
    using kem pair encaps by (simp add: kem_correct_def ct hex_decode_encode)
  have plain: "aes_decrypt P (encryptedData env) (hex_encode ss) (iv env) = Inr txt"
    using sym aes ds by (simp add: sym_correct_def)
  show ?thesis
    unfolding w'_def [symmetric]
    by (simp add: decryptData_def decryptData_try_def imp again decaps plain split: option.splits)
qed

text \<open>
  On the reference platform, from an empty key directory: the string
  \<^verbatim>\<open>Millet\<close> and a structured record both come back as they were.
\<close>

theorem decrypt_encrypt_parses_text_witness:
  "(case fst (encryptData ref_platform fresh_world (JStr ''Millet'')) of
      Inl e \<Rightarrow> False
    | Inr env \<Rightarrow>
        fst (decryptData ref_platform (snd (encryptData ref_platform fresh_world (JStr ''Millet''))) env)
          = Inr (JStr ''Millet'')) \<and>
   (case fst (encryptData ref_platform fresh_world crop_record) of
      Inl e \<Rightarrow> False
    | Inr env \<Rightarrow>
        fst (decryptData ref_platform (snd (encryptData ref_platform fresh_world crop_record)) env)
          = Inr crop_record)"
proof -
  obtain env1 where e1: "fst (encryptData ref_platform fresh_world (JStr ''Millet'')) = Inr env1"
    by (simp add: codec_eval keys_eval fs_eval ref_eval cong: prod.case_cong_weak)
  have d1: "dataString ref_platform (JStr ''Millet'') = JStr ''Millet''"
    by (simp add: dataString_def)
  have p1: "json_parse ref_platform ''Millet'' = None"
    by (simp add: ref_platform_def ref_parse_Millet)
  have obj: "typeof_object crop_record"
    by (simp add: crop_record_def)
  obtain env2 where e2: "fst (encryptData ref_platform fresh_world crop_record) = Inr env2"
    using obj
    by (simp add: codec_eval keys_eval fs_eval ref_eval cong: prod.case_cong_weak)
  have d2: "dataString ref_platform crop_record = JStr (ref_stringify crop_record)"
    using obj by (simp add: dataString_def ref_platform_def)
  have p2: "json_parse ref_platform (ref_stringify crop_record) = Some crop_record"
    by (simp add: ref_platform_def ref_parse_crop_record)
  from decrypt_encrypt_parses_text [OF ref_kem_correct ref_sym_correct fresh_store_ok e1 d1]
    decrypt_encrypt_parses_text [OF ref_kem_correct ref_sym_correct fresh_store_ok e2 d2]
  show ?thesis by (simp add: e1 e2 p1 p2)
qed

section \<open>Decrypting under another key pair\<close>

text \<open>
  Claim C2, as stated, fails: the code has no check of its own that the key matches.
  On the reference platform the envelope made under the pair (1, 0) is decrypted in a
  key directory that holds the unrelated pair (6, 5): decapsulation returns another
  secret, the cipher returns other text, and \<^verbatim>\<open>decryptData\<close> returns that text.
\<close>

theorem mismatched_key_rejected_counterexample:
  "kem_keygen ref_platform 0 = Inr ([1], [0]) \<and>
   kem_keygen ref_platform 5 = Inr ([6], [5]) \<and>
   fst (loadOrGenerateKyberKeys ref_platform fresh_world) = Inr \<lparr>publicKey = [1], privateKey = [0]\<rparr> \<and>
   fst (encryptData ref_platform fresh_world (JStr ''Millet'')) =
     Inr \<lparr>ciphertext = ''02'', encryptedData = ''Lhmmdu'', iv = ''02020202020202020202020202020202''\<rparr> \<and>
   fst (loadOrGenerateKyberKeys ref_platform world_B) = Inr \<lparr>publicKey = [6], privateKey = [5]\<rparr> \<and>
   fst (decryptData ref_platform world_B
          \<lparr>ciphertext = ''02'', encryptedData = ''Lhmmdu'', iv = ''02020202020202020202020202020202''\<rparr>)
     = Inr (JStr ''Oknngv'')"
  by (simp add: world_B_def codec_eval keys_eval fs_eval ref_eval ref_parse_Oknngv
      cong: prod.case_cong_weak)

text \<open>
  Claim C2, amended. \<^verbatim>\<open>decryptData\<close> fails, with \<^verbatim>\<open>Failed to decrypt data\<close>,
  exactly when the import, the key loading, the decapsulation or the symmetric
  decryption throws. When none of them throws, also under a private key that does not
  match, it returns the text they produce, parsed as JSON where that is possible.
\<close>

theorem decryptData_fails_with_primitives:
  "(fst (decryptData P w env) = Inl (Error ''Failed to decrypt data'') \<and>
    (isl (kem_import P) \<or> isl (fst (loadOrGenerateKyberKeys P w)) \<or>
     (\<exists>keys. fst (loadOrGenerateKyberKeys P w) = Inr keys \<and>
        (isl (kem_decapsulate P (hex_decode (ciphertext env)) (privateKey keys)) \<or>
         (\<exists>ss. kem_decapsulate P (hex_decode (ciphertext env)) (privateKey keys) = Inr ss \<and>
            isl (aes_decrypt P (encryptedData env) (hex_encode ss) (iv env))))))) \<or>
   (\<exists>keys ss t. \<not> isl (kem_import P) \<and> fst (loadOrGenerateKyberKeys P w) = Inr keys \<and>
      kem_decapsulate P (hex_decode (ciphertext env)) (privateKey keys) = Inr ss \<and>
      aes_decrypt P (encryptedData env) (hex_encode ss) (iv env) = Inr t \<and>
      fst (decryptData P w env) = Inr (case json_parse P t of Some v \<Rightarrow> v | None \<Rightarrow> JStr t))"
proof (cases "kem_import P")
  case (Inl e)
  then show ?thesis by (simp add: decryptData_def decryptData_try_def)
next
  case imp: (Inr u)
  obtain r w1 where load: "loadOrGenerateKyberKeys P w = (r, w1)"
    by (cases "loadOrGenerateKyberKeys P w")
  show ?thesis
  proof (cases r)
    case (Inl e)
    with imp load show ?thesis by (simp add: decryptData_def decryptData_try_def)
  next
    case keys: (Inr keys)
    show ?thesis
    proof (cases "kem_decapsulate P (hex_decode (ciphertext env)) (privateKey keys)")
      case (Inl e)
      with imp load keys show ?thesis by (simp add: decryptData_def decryptData_try_def)
    next
      case ss: (Inr ss)
      show ?thesis
      proof (cases "aes_decrypt P (encryptedData env) (hex_encode ss) (iv env)")
        case (Inl e)
        with imp load keys ss show ?thesis by (simp add: decryptData_def decryptData_try_def)
      next
        case (Inr t)
        with imp load keys ss show ?thesis
          by (simp add: decryptData_def decryptData_try_def split: option.splits)
      qed
    qed
  qed
qed

section \<open>Signing and verifying\<close>

lemma ref_dsa_correct: "dsa_correct ref_platform"
  by (simp add: dsa_correct_def ref_platform_def ref_dsa_keygen_def ref_dsa_sign_def
      ref_dsa_verify_def)

lemma signData_try_success:
  assumes "signData_try P w d = (Inr pkg, w')"
  obtains u keys w1 msg sg where
    "dsa_import P = Inr u"
    "loadOrGenerateDilithiumKeys P w = (Inr keys, w1)"
    "buffer_from P (dataString P d) Utf8 = Inr msg"
    "dsa_sign P (entropy w1) msg (privateKey keys) = Inr sg"
    "pkg = JObj [(''data'', d), (''signature'', JStr (hex_encode sg))]"
    "w' = w1\<lparr>entropy := Suc (entropy w1)\<rparr>"
proof (cases "dsa_import P")
  case (Inl e)
  with assms show ?thesis by (simp add: signData_try_def)
next
  case imp: (Inr u)
  obtain r w1 where load: "loadOrGenerateDilithiumKeys P w = (r, w1)"
    by (cases "loadOrGenerateDilithiumKeys P w")
  show ?thesis
  proof (cases r)
    case (Inl e)
    with assms imp load show ?thesis by (simp add: signData_try_def)
  next
    case keys: (Inr keys)
    show ?thesis
    proof (cases "buffer_from P (dataString P d) Utf8")
      case (Inl e)
      with assms imp load keys show ?thesis by (simp add: signData_try_def)
    next
      case msg: (Inr msg)
      show ?thesis
      proof (cases "dsa_sign P (entropy w1) msg (privateKey keys)")
        case (Inl e)
        with assms imp load keys msg show ?thesis by (simp add: signData_try_def draw_def)
      next
        case (Inr sg)
        with assms imp load keys msg
        have "pkg = JObj [(''data'', d), (''signature'', JStr (hex_encode sg))]"
          "w' = w1\<lparr>entropy := Suc (entropy w1)\<rparr>"
          by (simp_all add: signData_try_def draw_def)
        with imp load keys msg Inr that show ?thesis by simp
      qed
    qed
  qed
qed

lemma signData_success:
  "fst (signData P w d) = Inr pkg \<Longrightarrow> signData_try P w d = (Inr pkg, snd (signData P w d))"
  by (cases "signData_try P w d") (auto simp: signData_def split: sum.splits)

lemma verifySignature_package:
  assumes "dsa_import P = Inr u" and "loadOrGenerateDilithiumKeys P w = (Inr keys, w1)"
  shows "fst (verifySignature P w (JObj [(''data'', d), (''signature'', s)])) =
     Inr (case buffer_from P (dataString P d) Utf8 of
            Inl e \<Rightarrow> False
          | Inr m \<Rightarrow>
              (case buffer_from P s Hex of
                 Inl e \<Rightarrow> False
               | Inr sg \<Rightarrow> dsa_verify P m sg (publicKey keys) = Inr True))"
  using assms
  by (simp add: verifySignature_def verifySignature_try_def split: sum.splits)

lemmas signer_eval =
  signData_def signData_try_def verifySignature_def verifySignature_try_def dataString_def
  utf8_bytes_def

text \<open>
  Claim C5 does not hold of the code. \<^verbatim>\<open>signData\<close> calls
  \<^verbatim>\<open>sign(message, secretKey)\<close> as the library declares it, but
  \<^verbatim>\<open>verifySignature\<close> calls \<^verbatim>\<open>verify(message, signature, publicKey)\<close> where the
  library declares \<^verbatim>\<open>verify(signature, message, publicKey)\<close>. So for the package
  that \<^verbatim>\<open>signData\<close> has just returned, with the same keys read back from the key
  files, the verdict of \<^verbatim>\<open>verifySignature\<close> is the library's verdict on the message
  taken as a signature of the signature bytes, and not its verdict on the signature
  taken as a signature of the message.
\<close>

theorem verifySignature_swaps_arguments:
  assumes "key_file_ok w DILITHIUM_PRIVATE_KEY_PATH" and "key_file_ok w DILITHIUM_PUBLIC_KEY_PATH"
    and "fst (signData P w p) = Inr pkg"
  shows "\<exists>keys msg sg r.
           fst (loadOrGenerateDilithiumKeys P w) = Inr keys \<and>
           buffer_from P (dataString P p) Utf8 = Inr msg \<and>
           dsa_sign P r msg (privateKey keys) = Inr sg \<and>
           pkg = JObj [(''data'', p), (''signature'', JStr (hex_encode sg))] \<and>
           fst (verifySignature P (snd (signData P w p)) pkg) =
             Inr (dsa_verify P msg sg (publicKey keys) = Inr True)"
proof -
  define w' where "w' = snd (signData P w p)"
  have "signData_try P w p = (Inr pkg, w')"
    using assms(3) by (simp add: w'_def signData_success)
  then obtain u keys w1 msg sg where
    imp: "dsa_import P = Inr u" and
    load: "loadOrGenerateDilithiumKeys P w = (Inr keys, w1)" and
    msg: "buffer_from P (dataString P p) Utf8 = Inr msg" and
    sg: "dsa_sign P (entropy w1) msg (privateKey keys) = Inr sg" and
    pkg: "pkg = JObj [(''data'', p), (''signature'', JStr (hex_encode sg))]" and
    w': "w' = w1\<lparr>entropy := Suc (entropy w1)\<rparr>"
    by (rule signData_try_success)
  have gen: "loadOrGenerateKeys (dsa_import P) (dsa_keygen P) DILITHIUM_PRIVATE_KEY_PATH
      DILITHIUM_PUBLIC_KEY_PATH ''Failed to generate Dilithium keys'' w = (Inr keys, w1)"
    using load by (simp add: loadOrGenerateDilithiumKeys_generic)
  have again: "loadOrGenerateDilithiumKeys P w' = (Inr keys, w')"
    using loadOrGenerateKeys_stable [OF gen assms(1,2) dilithium_paths_distinct]
    by (simp add: loadOrGenerateDilithiumKeys_generic w')
  have sbytes: "buffer_from P (JStr (hex_encode sg)) Hex = Inr sg"
    by (simp add: hex_decode_encode)
  have verdict: "fst (verifySignature P w' pkg) =
      Inr (dsa_verify P msg sg (publicKey keys) = Inr True)"
    by (simp add: pkg verifySignature_package [OF imp again] msg hex_decode_encode)
  have key: "fst (loadOrGenerateDilithiumKeys P w) = Inr keys"
    using load by simp
  show ?thesis
    unfolding w'_def [symmetric]
    using key msg sg pkg verdict by (intro exI conjI)
qed

text \<open>
  On the reference platform, whose signature scheme is correct: the token is signed,
  the library accepts the signature when asked in its own order, and
  \<^verbatim>\<open>verifySignature\<close> returns false for the package just made.
\<close>

theorem verifySignature_swaps_arguments_witness:
  "fst (signData ref_platform fresh_world (JStr ''token-abc123'')) =
     Inr (JObj [(''data'', JStr ''token-abc123''),
                (''signature'', JStr ''00746f6b656e2d616263313233'')]) \<and>
   dsa_verify ref_platform (hex_decode ''00746f6b656e2d616263313233'')
     (utf8_bytes ''token-abc123'') [0] = Inr True \<and>
   fst (verifySignature ref_platform (snd (signData ref_platform fresh_world (JStr ''token-abc123'')))
          (JObj [(''data'', JStr ''token-abc123''),
                 (''signature'', JStr ''00746f6b656e2d616263313233'')])) = Inr False"
proof -
  have ok: "key_file_ok fresh_world DILITHIUM_PRIVATE_KEY_PATH"
    "key_file_ok fresh_world DILITHIUM_PUBLIC_KEY_PATH"
    by (simp_all add: key_file_ok_def fresh_world_def)
  have sign: "fst (signData ref_platform fresh_world (JStr ''token-abc123'')) =
     Inr (JObj [(''data'', JStr ''token-abc123''),
                (''signature'', JStr ''00746f6b656e2d616263313233'')])"
    by (simp add: signer_eval keys_eval fs_eval ref_eval cong: prod.case_cong_weak)
  have key: "fst (loadOrGenerateDilithiumKeys ref_platform fresh_world) =
      Inr \<lparr>publicKey = [0], privateKey = [0]\<rparr>"
    by (simp add: keys_eval fs_eval ref_eval cong: prod.case_cong_weak)
  have accepted: "dsa_verify ref_platform (hex_decode ''00746f6b656e2d616263313233'')
     (utf8_bytes ''token-abc123'') [0] = Inr True"
    by (simp add: ref_platform_def ref_dsa_verify_def utf8_bytes_def hex_value_def)
  from verifySignature_swaps_arguments [OF ok sign]
  obtain keys msg sg r where
    k: "fst (loadOrGenerateDilithiumKeys ref_platform fresh_world) = Inr keys" and
    m: "buffer_from ref_platform (dataString ref_platform (JStr ''token-abc123'')) Utf8 = Inr msg" and
    s: "JObj [(''data'', JStr ''token-abc123''),
              (''signature'', JStr ''00746f6b656e2d616263313233'')] =
        JObj [(''data'', JStr ''token-abc123''), (''signature'', JStr (hex_encode sg))]" and
    verdict: "fst (verifySignature ref_platform
        (snd (signData ref_platform fresh_world (JStr ''token-abc123'')))
        (JObj [(''data'', JStr ''token-abc123''),
               (''signature'', JStr ''00746f6b656e2d616263313233'')])) =
      Inr (dsa_verify ref_platform msg sg (publicKey keys) = Inr True)"
    by (elim exE conjE)
  have keys: "keys = \<lparr>publicKey = [0], privateKey = [0]\<rparr>"
    using k key by simp
  have msg: "msg = utf8_bytes ''token-abc123''"
    using m by (simp add: dataString_def)
  have "hex_decode ''00746f6b656e2d616263313233'' = hex_decode (hex_encode sg)"
    using s by simp
  then have sg: "sg = hex_decode ''00746f6b656e2d616263313233''"
    by (simp only: hex_decode_encode)
  have "dsa_verify ref_platform msg sg (publicKey keys) = Inr False"
    by (simp add: keys msg sg ref_platform_def ref_dsa_verify_def utf8_bytes_def hex_value_def)
  with verdict have "fst (verifySignature ref_platform
        (snd (signData ref_platform fresh_world (JStr ''token-abc123'')))
        (JObj [(''data'', JStr ''token-abc123''),
               (''signature'', JStr ''00746f6b656e2d616263313233'')])) = Inr False"
    by simp
  with sign accepted show ?thesis by (intro conjI)
qed

end
